theory Spec2Isabelle
  imports Complex_Main
begin

section \<open>Errors and tensors\<close>

text \<open>
  The detector is Python on top of PyTorch. A call of the model returns \<open>Inr\<close> of its
  result or \<open>Inl\<close> of the reason why there is none: one of the Python exceptions the
  modelled code can raise, or \<open>NonFinite\<close> where PyTorch returns a tensor that holds NaN
  or an infinity (a mean of no element, a standard deviation of fewer than two elements,
  a division by zero). Tensor elements are real numbers: rounding is outside the model,
  and it stops at the first operation that would produce a NaN or an infinity as a result.
  The overflow inside \<open>sigmoid\<close>, whose result is the number 0, is written out there.
\<close>

datatype error = ValueError | IndexError | RuntimeError | AssertionError | NonFinite

definition bind_err :: "error + 'a \<Rightarrow> ('a \<Rightarrow> error + 'b) \<Rightarrow> error + 'b" where
  "bind_err m f = (case m of Inl e \<Rightarrow> Inl e | Inr v \<Rightarrow> f v)"

fun map_err :: "('a \<Rightarrow> error + 'b) \<Rightarrow> 'a list \<Rightarrow> error + 'b list" where
  "map_err f [] = Inr []"
| "map_err f (x # xs) =
     bind_err (f x) (\<lambda>y. bind_err (map_err f xs) (\<lambda>ys. Inr (y # ys)))"

text \<open>
  A tensor is its shape and its elements in row-major (contiguous) order, the order in
  which \<open>reshape\<close> reads them.
\<close>

datatype tensor = Tensor (shape: "nat list") (data: "real list")

definition wf_tensor :: "tensor \<Rightarrow> bool" where
  "wf_tensor t = (length (data t) = prod_list (shape t))"

definition slice :: "nat \<Rightarrow> nat \<Rightarrow> 'a list \<Rightarrow> 'a list" where
  "slice off len xs = take len (drop off xs)"

text \<open>
  \<open>t.permute(1, 0, 2, 3)\<close> of a tensor of shape \<open>(a, b, h, w)\<close>: the element at
  \<open>[j, i, y, x]\<close> of the result is the element at \<open>[i, j, y, x]\<close> of \<open>t\<close>, so the result
  lists, for each \<open>j\<close> and then each \<open>i\<close>, the block of \<open>h * w\<close> elements that starts at
  \<open>(i * b + j) * (h * w)\<close>. A tensor of another rank makes PyTorch raise.
\<close>

definition permute1023 :: "tensor \<Rightarrow> error + tensor" where
  "permute1023 t =
     (case shape t of
        [a, b, h, w] \<Rightarrow>
          Inr (Tensor [b, a, h, w]
            (concat (map (\<lambda>j. concat (map (\<lambda>i. slice ((i * b + j) * (h * w)) (h * w) (data t))
                                          [0..<a])) [0..<b])))
      | _ \<Rightarrow> Inl RuntimeError)"

text \<open>
  \<open>t.permute(0, 2, 3, 1)\<close> of a tensor of shape \<open>(n, k, h, w)\<close>: the element at
  \<open>[i, y, x, c]\<close> of the result is the element at \<open>[i, c, y, x]\<close> of \<open>t\<close>.
\<close>

definition permute0231 :: "tensor \<Rightarrow> error + tensor" where
  "permute0231 t =
     (case shape t of
        [n, k, h, w] \<Rightarrow>
          Inr (Tensor [n, h, w, k]
            (concat (map (\<lambda>i. concat (map (\<lambda>y. concat (map (\<lambda>x.
               map (\<lambda>c. data t ! (((i * k + c) * h + y) * w + x)) [0..<k])
               [0..<w])) [0..<h])) [0..<n])))
      | _ \<Rightarrow> Inl RuntimeError)"

text \<open>
  A two-dimensional tensor is read as the list of its rows. \<open>reshape(c, -1)\<close> asks for
  \<open>c\<close> rows and \<open>reshape(-1, k)\<close> for rows of \<open>k\<close> elements; PyTorch raises when the
  number of elements is not a multiple of the given size, and when that size is 0.
\<close>

definition rows2d :: "nat \<Rightarrow> nat \<Rightarrow> 'a list \<Rightarrow> 'a list list" where
  "rows2d r k xs = map (\<lambda>i. slice (i * k) k xs) [0..<r]"

definition reshape_rows :: "nat \<Rightarrow> real list \<Rightarrow> error + real list list" where
  "reshape_rows c xs =
     (if c = 0 \<or> length xs mod c \<noteq> 0 then Inl RuntimeError
      else Inr (rows2d c (length xs div c) xs))"

definition reshape_cols :: "nat \<Rightarrow> real list \<Rightarrow> error + real list list" where
  "reshape_cols k xs =
     (if k = 0 \<or> length xs mod k \<noteq> 0 then Inl RuntimeError
      else Inr (rows2d (length xs div k) k xs))"

text \<open>
  \<open>mean(dim=-1)\<close> and \<open>std(dim=-1)\<close> of one row. PyTorch's \<open>std\<close> is the unbiased
  estimator (it divides by one less than the number of elements); the mean of an empty
  row and the deviation of a row of fewer than two elements are NaN.
\<close>

definition mean :: "real list \<Rightarrow> real" where
  "mean xs = sum_list xs / real (length xs)"

definition std :: "real list \<Rightarrow> real" where
  "std xs = sqrt (sum_list (map (\<lambda>x. (x - mean xs)\<^sup>2) xs) / real (length xs - 1))"

definition tensor_mean :: "real list \<Rightarrow> error + real" where
  "tensor_mean xs = (if xs = [] then Inl NonFinite else Inr (mean xs))"

definition tensor_std :: "real list \<Rightarrow> error + real" where
  "tensor_std xs = (if length xs < 2 then Inl NonFinite else Inr (std xs))"

definition relu :: "tensor \<Rightarrow> tensor" where
  "relu t = Tensor (shape t) (map (max 0) (data t))"

section \<open>The detector and its heads\<close>

text \<open>
  A \<open>ConvModule\<close> of the framework is a convolution with its normalisation, followed by
  an activation. \<open>conv_norm m\<close> is the call \<open>m(x, activate=False)\<close>, \<open>activate m\<close> the
  attribute \<open>m.activate\<close>, and \<open>call_conv m\<close> the plain call \<open>m(x)\<close>. The modules of
  the heads are built with an activation, so the attribute exists. \<open>inplace m\<close> says
  whether \<open>m.activate\<close> writes its result into the tensor it is given and returns that
  tensor, as the framework's default \<open>ReLU(inplace=True)\<close> does, with which \<open>GFLHead\<close>
  builds its towers; the convolution and the normalisation return a new tensor. Calls
  into the framework (conv modules, prediction layers, scales, target assignment, the
  loss functions) are functions that return.
\<close>

record conv_module =
  conv_norm :: "tensor \<Rightarrow> tensor"
  activate :: "tensor \<Rightarrow> tensor"
  inplace :: bool

definition call_conv :: "conv_module \<Rightarrow> tensor \<Rightarrow> tensor" where
  "call_conv m x = activate m (conv_norm m x)"

text \<open>
  The detection head (\<open>GFLHead\<close>) as far as the detector reads it. Anchors and validity
  flags (\<open>'a\<close>), assigned targets (\<open>'y\<close>), ground-truth instances (\<open>'g\<close>) and image
  metadata (\<open>'m\<close>) are data of the framework that the detector only passes on.
  \<open>num_levels\<close> and \<open>strides\<close> are the two attributes read from \<open>prior_generator\<close>.
\<close>

record ('a, 'y, 'g, 'm) head =
  stacked_convs :: int
  cls_convs :: "conv_module list"
  reg_convs :: "conv_module list"
  gfl_cls :: "tensor \<Rightarrow> tensor"
  gfl_reg :: "tensor \<Rightarrow> tensor"
  scales :: "(tensor \<Rightarrow> tensor) list"
  cls_out_channels :: nat
  reg_max :: nat
  num_levels :: nat
  strides :: "(nat \<times> nat) list"
  get_anchors :: "nat list list \<Rightarrow> 'm list \<Rightarrow> 'a \<times> 'a"
  get_targets :: "'a \<Rightarrow> 'a \<Rightarrow> 'g list \<Rightarrow> 'm list \<Rightarrow> 'g list \<Rightarrow>
                  'a list \<times> 'y list \<times> tensor list \<times> 'y list \<times> 'y list \<times> real"
  loss_by_feat_single :: "'a \<Rightarrow> tensor \<Rightarrow> tensor \<Rightarrow> 'y \<Rightarrow> tensor \<Rightarrow> 'y \<Rightarrow> nat \<times> nat \<Rightarrow> real \<Rightarrow>
                          real \<times> real \<times> real \<times> real"

record ('a, 'y, 'g, 'm) single_stage_detector =
  extract_feat :: "tensor \<Rightarrow> tensor list"
  bbox_head :: "('a, 'y, 'g, 'm) head"

text \<open>
  \<open>CrossKDGFL\<close>: a single-stage detector (the student) that holds the teacher and the
  three distillation losses. The attributes are set by the base class
  \<open>CrossKDSingleStageDetector\<close> from the configuration.
\<close>

record ('a, 'y, 'g, 'm) crosskd_gfl = "('a, 'y, 'g, 'm) single_stage_detector" +
  teacher :: "('a, 'y, 'g, 'm) single_stage_detector"
  reused_teacher_head_idx :: int
  with_feat_distill :: bool
  loss_cls_kd :: "real list list \<Rightarrow> real list list \<Rightarrow> real list \<Rightarrow> real \<Rightarrow> real"
  loss_reg_kd :: "real list list \<Rightarrow> real list list \<Rightarrow> real list \<Rightarrow> real \<Rightarrow> real"
  loss_feat_kd :: "tensor \<Rightarrow> tensor \<Rightarrow> real"

subsection \<open>\<open>forward_crosskd_single\<close>\<close>

text \<open>
  One of the two \<open>for i, conv in enumerate(convs)\<close> loops: the state is the running
  feature and the held feature, \<open>i\<close> counts the layers already passed. The assignment
  \<open>cls_feat_hold = cls_feat\<close> copies no values: it makes the held name a second name of
  the tensor that the conv layer has just returned. The next statement passes this
  tensor to \<open>conv.activate\<close>; an in-place activation overwrites it, and the held name
  then reads the activated values. No other tensor of the loop has two names when it is
  written: each conv layer returns a new one.
\<close>

fun hold_loop :: "int \<Rightarrow> nat \<Rightarrow> conv_module list \<Rightarrow> tensor \<times> tensor \<Rightarrow> tensor \<times> tensor" where
  "hold_loop idx i [] (feat, feat_hold) = (feat, feat_hold)"
| "hold_loop idx i (conv # convs) (feat, feat_hold) =
     (let feat = conv_norm conv feat;
          aliased = (int i + 1 = idx);
          feat_hold = (if aliased then feat else feat_hold);
          activated = activate conv feat;
          feat_hold = (if aliased \<and> inplace conv then activated else feat_hold);
          feat = activated
      in hold_loop idx (Suc i) convs (feat, feat_hold))"

text \<open>\<open>.float()\<close> converts the element type and is the identity on real numbers.\<close>

definition forward_crosskd_single ::
  "('a, 'y, 'g, 'm) crosskd_gfl \<Rightarrow> tensor \<Rightarrow> (tensor \<Rightarrow> tensor) \<Rightarrow>
   ('a, 'y, 'g, 'm, 'z) single_stage_detector_scheme \<Rightarrow> tensor \<times> tensor \<times> tensor \<times> tensor" where
  "forward_crosskd_single self x scale modul =
     (let (cls_feat, cls_feat_hold) =
            hold_loop (reused_teacher_head_idx self) 0 (cls_convs (bbox_head modul)) (x, x);
          (reg_feat, reg_feat_hold) =
            hold_loop (reused_teacher_head_idx self) 0 (reg_convs (bbox_head modul)) (x, x);
          cls_score = gfl_cls (bbox_head modul) cls_feat;
          bbox_pred = scale (gfl_reg (bbox_head modul) reg_feat)
      in (cls_score, bbox_pred, cls_feat_hold, reg_feat_hold))"

subsection \<open>\<open>align_scale\<close>\<close>

definition align_scale :: "tensor \<Rightarrow> tensor \<Rightarrow> error + tensor" where
  "align_scale stu_feat tea_feat =
     (case shape stu_feat of
        [N, C, H, W] \<Rightarrow>
          bind_err (permute1023 stu_feat) (\<lambda>stu_perm.
          bind_err (reshape_rows C (data stu_perm)) (\<lambda>stu_rows.
          bind_err (map_err tensor_mean stu_rows) (\<lambda>stu_mean.
          bind_err (map_err tensor_std stu_rows) (\<lambda>stu_std.
          let stu_norm = map (\<lambda>c. map (\<lambda>x. (x - stu_mean ! c) / (stu_std ! c + 1 / 1000000))
                                     (stu_rows ! c)) [0..<C] in
          bind_err (permute1023 tea_feat) (\<lambda>tea_perm.
          bind_err (reshape_rows C (data tea_perm)) (\<lambda>tea_rows.
          bind_err (map_err tensor_mean tea_rows) (\<lambda>tea_mean.
          bind_err (map_err tensor_std tea_rows) (\<lambda>tea_std.
          let stu_out = map (\<lambda>c. map (\<lambda>x. x * tea_std ! c + tea_mean ! c) (stu_norm ! c))
                            [0..<C] in
          permute1023 (Tensor [C, N, H, W] (concat stu_out))))))))))
      | _ \<Rightarrow> Inl ValueError)"

subsection \<open>\<open>reuse_teacher_head\<close>\<close>

text \<open>
  \<open>range(a, b)\<close>, and the indexing of a \<open>ModuleList\<close>: a negative index counts from the
  end, an index outside the list raises \<open>IndexError\<close>.
\<close>

definition py_range :: "int \<Rightarrow> int \<Rightarrow> int list" where
  "py_range a b = map (\<lambda>k. a + int k) [0..<nat (b - a)]"

definition getitem :: "'a list \<Rightarrow> int \<Rightarrow> error + 'a" where
  "getitem xs idx =
     (if \<not> (- int (length xs) \<le> idx \<and> idx < int (length xs)) then Inl IndexError
      else Inr (xs ! nat (if idx < 0 then idx + int (length xs) else idx)))"

fun reuse_loop ::
  "('a, 'y, 'g, 'm) head \<Rightarrow> int list \<Rightarrow> tensor \<times> tensor \<Rightarrow> error + tensor \<times> tensor" where
  "reuse_loop modul [] (reused_cls_feat, reused_reg_feat) =
     Inr (reused_cls_feat, reused_reg_feat)"
| "reuse_loop modul (i # is) (reused_cls_feat, reused_reg_feat) =
     bind_err (getitem (cls_convs modul) i) (\<lambda>cls_conv.
     let reused_cls_feat = call_conv cls_conv reused_cls_feat in
     bind_err (getitem (reg_convs modul) i) (\<lambda>reg_conv.
     let reused_reg_feat = call_conv reg_conv reused_reg_feat in
     reuse_loop modul is (reused_cls_feat, reused_reg_feat)))"

definition reuse_teacher_head ::
  "('a, 'y, 'g, 'm) crosskd_gfl \<Rightarrow> tensor \<Rightarrow> tensor \<Rightarrow> tensor \<Rightarrow> tensor \<Rightarrow> (tensor \<Rightarrow> tensor) \<Rightarrow>
   error + tensor \<times> tensor" where
  "reuse_teacher_head self tea_cls_feat tea_reg_feat stu_cls_feat stu_reg_feat scale =
     bind_err (align_scale stu_cls_feat tea_cls_feat) (\<lambda>reused_cls_feat.
     bind_err (align_scale stu_reg_feat tea_reg_feat) (\<lambda>reused_reg_feat.
     let (reused_cls_feat, reused_reg_feat) =
           (if reused_teacher_head_idx self \<noteq> 0
            then (relu reused_cls_feat, relu reused_reg_feat)
            else (reused_cls_feat, reused_reg_feat));
         modul = bbox_head (teacher self)
     in bind_err (reuse_loop modul
                    (py_range (reused_teacher_head_idx self) (stacked_convs modul))
                    (reused_cls_feat, reused_reg_feat))
          (\<lambda>(reused_cls_feat, reused_reg_feat).
             Inr (gfl_cls modul reused_cls_feat, scale (gfl_reg modul reused_reg_feat)))))"

subsection \<open>\<open>pred_mimicking_loss_single\<close>\<close>

text \<open>\<open>t.permute(0, 2, 3, 1).reshape(-1, k)\<close>: one row of \<open>k\<close> elements per location.\<close>

definition permute_reshape :: "nat \<Rightarrow> tensor \<Rightarrow> error + real list list" where
  "permute_reshape k t = bind_err (permute0231 t) (\<lambda>p. reshape_cols k (data p))"

text \<open>
  \<open>torch.sigmoid\<close> on the \<open>float32\<close> scores computes \<open>1 / (1 + exp(-x))\<close>. From \<open>2 ^ 128\<close> on,
  \<open>exp(-x)\<close> is beyond the largest \<open>float32\<close>: PyTorch has an infinity in its place and
  returns exactly 0, for every score below about -88.7. The sum of the sigmoids is a
  denominator of \<open>loss_by_feat\<close>, so the model writes this overflow out.
\<close>

definition sigmoid :: "real \<Rightarrow> real" where
  "sigmoid x = (if 2 ^ 128 \<le> exp (- x) then 0 else 1 / (1 + exp (- x)))"

text \<open>
  The two statements that compute \<open>reg_weights\<close>: the sigmoid of the largest score of
  each row, then the assignment of 0 under the mask \<open>label_weights == 0\<close>. PyTorch
  raises \<open>IndexError\<close> when the mask and the indexed tensor differ in shape.
\<close>

definition kd_reg_weights :: "real list list \<Rightarrow> real list \<Rightarrow> error + real list" where
  "kd_reg_weights tea_cls_score label_weights =
     (let reg_weights = map (\<lambda>row. sigmoid (Max (set row))) tea_cls_score
      in if length label_weights \<noteq> length reg_weights then Inl IndexError
         else Inr (map (\<lambda>(w, l). if l = 0 then 0 else w) (zip reg_weights label_weights)))"

text \<open>\<open>w[:, None].expand(-1, 4).reshape(-1)\<close>: every weight four times in a row.\<close>

definition expand4 :: "real list \<Rightarrow> real list" where
  "expand4 w = concat (map (replicate 4) w)"

definition pred_mimicking_loss_single ::
  "('a, 'y, 'g, 'm) crosskd_gfl \<Rightarrow> tensor \<Rightarrow> tensor \<Rightarrow> tensor \<Rightarrow> tensor \<Rightarrow> tensor \<Rightarrow> real \<Rightarrow>
   error + real \<times> real \<times> real" where
  "pred_mimicking_loss_single self tea_cls_score tea_bbox_pred reused_cls_score reused_bbox_pred
       label_weights avg_factor =
     bind_err (permute_reshape (cls_out_channels (bbox_head self)) tea_cls_score)
       (\<lambda>tea_cls_score.
     bind_err (permute_reshape (cls_out_channels (bbox_head self)) reused_cls_score)
       (\<lambda>reused_cls_score.
     let label_weights = data label_weights;
         loss_cls_kd = loss_cls_kd self reused_cls_score tea_cls_score label_weights avg_factor;
         reg_max = reg_max (bbox_head self)
     in
     bind_err (permute_reshape (reg_max + 1) tea_bbox_pred) (\<lambda>tea_bbox_pred.
     bind_err (permute_reshape (reg_max + 1) reused_bbox_pred) (\<lambda>reused_bbox_pred.
     bind_err (kd_reg_weights tea_cls_score label_weights) (\<lambda>reg_weights.
     let loss_reg_kd = loss_reg_kd self reused_bbox_pred tea_bbox_pred (expand4 reg_weights) 4
     in Inr (loss_cls_kd, loss_reg_kd, sum_list reg_weights))))))"

subsection \<open>\<open>loss_by_feat\<close>\<close>

text \<open>
  The functions the detector imports from the framework: \<open>reduce_mean\<close> averages a
  number over the training processes, \<open>unpack_gt_instances\<close> splits the data samples
  (\<open>'s\<close>) into ground-truth instances, ignored instances and image metadata.
\<close>

record ('g, 'm, 's) utils =
  reduce_mean :: "real \<Rightarrow> real"
  unpack_gt_instances :: "'s list \<Rightarrow> 'g list \<times> 'g list \<times> 'm list"

text \<open>
  \<open>multi_apply(f, xs, ys, ...)\<close> calls \<open>f\<close> on the lists in step, as many times as the
  shortest list is long, and returns one list per component of the results. With no
  call there is no component, and the tuple assignment that receives them raises
  \<open>ValueError\<close>.
\<close>

definition unpack2 :: "('a \<times> 'b) list \<Rightarrow> error + 'a list \<times> 'b list" where
  "unpack2 rs = (if rs = [] then Inl ValueError else Inr (map fst rs, map snd rs))"

definition unpack3 :: "('a \<times> 'b \<times> 'c) list \<Rightarrow> error + 'a list \<times> 'b list \<times> 'c list" where
  "unpack3 rs =
     (if rs = [] then Inl ValueError
      else Inr (map fst rs, map (\<lambda>r. fst (snd r)) rs, map (\<lambda>r. snd (snd r)) rs))"

definition unpack4 ::
  "('a \<times> 'b \<times> 'c \<times> 'd) list \<Rightarrow> error + 'a list \<times> 'b list \<times> 'c list \<times> 'd list" where
  "unpack4 rs =
     (if rs = [] then Inl ValueError
      else Inr (map fst rs, map (\<lambda>r. fst (snd r)) rs, map (\<lambda>r. fst (snd (snd r))) rs,
                map (\<lambda>r. snd (snd (snd r))) rs))"

text \<open>
  The call \<open>multi_apply(self.bbox_head.loss_by_feat_single, ...)\<close>, before its results
  are split: one tuple \<open>(loss_cls, loss_bbox, loss_dfl, avg_factor)\<close> per scale level.
\<close>

definition det_levels ::
  "('a, 'y, 'g, 'm) crosskd_gfl \<Rightarrow> 'a list \<Rightarrow> tensor list \<Rightarrow> tensor list \<Rightarrow> 'y list \<Rightarrow>
   tensor list \<Rightarrow> 'y list \<Rightarrow> real \<Rightarrow> (real \<times> real \<times> real \<times> real) list" where
  "det_levels self anchor_list cls_scores bbox_preds labels_list label_weights_list
       bbox_targets_list avg_factor =
     map (\<lambda>i. loss_by_feat_single (bbox_head self) (anchor_list ! i) (cls_scores ! i)
                 (bbox_preds ! i) (labels_list ! i) (label_weights_list ! i)
                 (bbox_targets_list ! i) (strides (bbox_head self) ! i) avg_factor)
         [0..<Min {length anchor_list, length cls_scores, length bbox_preds,
                   length labels_list, length label_weights_list, length bbox_targets_list,
                   length (strides (bbox_head self))}]"

text \<open>
  The call \<open>multi_apply(self.pred_mimicking_loss_single, ...)\<close>, before its results are
  split: one tuple \<open>(loss_cls_kd, loss_reg_kd, reg_weights.sum())\<close> per scale level.
\<close>

definition kd_levels ::
  "('a, 'y, 'g, 'm) crosskd_gfl \<Rightarrow> tensor list \<Rightarrow> tensor list \<Rightarrow> tensor list \<Rightarrow> tensor list \<Rightarrow>
   tensor list \<Rightarrow> real \<Rightarrow> error + (real \<times> real \<times> real) list" where
  "kd_levels self tea_cls_scores tea_bbox_preds reused_cls_scores reused_bbox_preds
       label_weights_list avg_factor =
     map_err (\<lambda>i. pred_mimicking_loss_single self (tea_cls_scores ! i) (tea_bbox_preds ! i)
                     (reused_cls_scores ! i) (reused_bbox_preds ! i) (label_weights_list ! i)
                     avg_factor)
             [0..<Min {length tea_cls_scores, length tea_bbox_preds, length reused_cls_scores,
                       length reused_bbox_preds, length label_weights_list}]"

text \<open>
  The loss dictionary maps the name of a loss to its values, one per scale level.
  Dividing by a \<open>kd_avg_factor\<close> of 0 gives infinities or NaN in PyTorch.
\<close>

definition loss_by_feat ::
  "('g, 'm, 's) utils \<Rightarrow> ('a, 'y, 'g, 'm) crosskd_gfl \<Rightarrow>
   tensor list \<Rightarrow> tensor list \<Rightarrow> tensor list \<Rightarrow> tensor list \<Rightarrow> tensor list \<Rightarrow> tensor list \<Rightarrow>
   tensor list \<Rightarrow> tensor list \<Rightarrow> 'g list \<Rightarrow> 'm list \<Rightarrow> 'g list \<Rightarrow>
   error + (string \<rightharpoonup> real list)" where
  "loss_by_feat U self tea_cls_scores tea_bbox_preds tea_feats cls_scores bbox_preds feats
       reused_cls_scores reused_bbox_preds batch_gt_instances batch_img_metas
       batch_gt_instances_ignore =
     (let featmap_sizes = map (\<lambda>featmap. drop (length (shape featmap) - 2) (shape featmap))
                              cls_scores
      in
      if length featmap_sizes \<noteq> num_levels (bbox_head self) then Inl AssertionError
      else if cls_scores = [] then Inl IndexError
      else
        let (anchor_list, valid_flag_list) =
              get_anchors (bbox_head self) featmap_sizes batch_img_metas;
            (anchor_list, labels_list, label_weights_list, bbox_targets_list,
             bbox_weights_list, avg_factor) =
              get_targets (bbox_head self) anchor_list valid_flag_list batch_gt_instances
                batch_img_metas batch_gt_instances_ignore;
            avg_factor = reduce_mean U avg_factor
        in
        bind_err (unpack4 (det_levels self anchor_list cls_scores bbox_preds labels_list
                             label_weights_list bbox_targets_list avg_factor))
          (\<lambda>(losses_cls, losses_bbox, losses_dfl, new_avg_factor).
        let new_avg_factor = sum_list new_avg_factor;
            new_avg_factor = max 1 (reduce_mean U new_avg_factor);
            losses_bbox = map (\<lambda>x. x / new_avg_factor) losses_bbox;
            losses_dfl = map (\<lambda>x. x / new_avg_factor) losses_dfl;
            losses = [''loss_cls'' \<mapsto> losses_cls, ''loss_bbox'' \<mapsto> losses_bbox,
                      ''loss_dfl'' \<mapsto> losses_dfl]
        in
        bind_err (kd_levels self tea_cls_scores tea_bbox_preds reused_cls_scores
                    reused_bbox_preds label_weights_list avg_factor) (\<lambda>kd.
        bind_err (unpack3 kd) (\<lambda>(losses_cls_kd, losses_reg_kd, kd_avg_factor).
        let kd_avg_factor = sum_list kd_avg_factor in
        if kd_avg_factor = 0 then Inl NonFinite
        else
          let losses_reg_kd = map (\<lambda>x. x / kd_avg_factor) losses_reg_kd;
              losses = losses(''loss_cls_kd'' \<mapsto> losses_cls_kd,
                              ''loss_reg_kd'' \<mapsto> losses_reg_kd)
          in
          if with_feat_distill self
          then Inr (losses(''loss_feat_kd'' \<mapsto>
                      map (\<lambda>(feat, tea_feat). loss_feat_kd self feat tea_feat)
                          (zip feats tea_feats)))
          else Inr losses))))"

subsection \<open>\<open>loss\<close>\<close>

definition loss ::
  "('g, 'm, 's) utils \<Rightarrow> ('a, 'y, 'g, 'm) crosskd_gfl \<Rightarrow> tensor \<Rightarrow> 's list \<Rightarrow>
   error + (string \<rightharpoonup> real list)" where
  "loss U self batch_inputs batch_data_samples =
     (let tea_x = extract_feat (teacher self) batch_inputs in
      bind_err (unpack4 (map (\<lambda>(x, scale). forward_crosskd_single self x scale (teacher self))
                             (zip tea_x (scales (bbox_head (teacher self))))))
        (\<lambda>(tea_cls_scores, tea_bbox_preds, tea_cls_hold, tea_reg_hold).
      let stu_x = extract_feat self batch_inputs in
      bind_err (unpack4 (map (\<lambda>(x, scale). forward_crosskd_single self x scale self)
                             (zip stu_x (scales (bbox_head self)))))
        (\<lambda>(stu_cls_scores, stu_bbox_preds, stu_cls_hold, stu_reg_hold).
      bind_err (map_err (\<lambda>i. reuse_teacher_head self (tea_cls_hold ! i) (tea_reg_hold ! i)
                                (stu_cls_hold ! i) (stu_reg_hold ! i)
                                (scales (bbox_head (teacher self)) ! i))
                  [0..<Min {length tea_cls_hold, length tea_reg_hold, length stu_cls_hold,
                            length stu_reg_hold, length (scales (bbox_head (teacher self)))}])
        (\<lambda>reused.
      bind_err (unpack2 reused) (\<lambda>(reused_cls_scores, reused_bbox_preds).
      let (batch_gt_instances, batch_gt_instances_ignore, batch_img_metas) =
            unpack_gt_instances U batch_data_samples
      in loss_by_feat U self tea_cls_scores tea_bbox_preds tea_x
           stu_cls_scores stu_bbox_preds stu_x reused_cls_scores reused_bbox_preds
           batch_gt_instances batch_img_metas batch_gt_instances_ignore)))))"

section \<open>Training configurations\<close>

text \<open>
  The two configuration files of the repository are Python modules that bind
  \<open>max_epochs\<close>, \<open>param_scheduler\<close> (a list of keyword dictionaries) and
  \<open>train_cfg\<close>. A scheduler dictionary is a constructor named after its \<open>type\<close> key;
  the keys \<open>begin\<close> and \<open>end\<close> are Isabelle keywords and carry the prefix \<open>sched_\<close>.
\<close>

datatype scheduler =
    LinearLR (start_factor: rat) (by_epoch: bool) (sched_begin: nat) (sched_end: nat)
  | MultiStepLR (sched_begin: nat) (sched_end: nat) (by_epoch: bool)
      (milestones: "nat list") (gamma: rat)

record config =
  max_epochs :: nat
  param_scheduler :: "scheduler list"
  train_cfg_max_epochs :: nat

text \<open>\<open>configs/our/our_r50_fpn_ms-2x_coco.py\<close>, lines 2 to 16.\<close>

definition our_r50_fpn_ms_2x_coco :: config where
  "our_r50_fpn_ms_2x_coco =
     (let max_epochs = 58 in
      \<lparr> max_epochs = max_epochs,
        param_scheduler =
          [LinearLR (1 / 1000) False 0 500,
           MultiStepLR 0 max_epochs True [38, 54] (1 / 10)],
        train_cfg_max_epochs = max_epochs \<rparr>)"

text \<open>\<open>mmdet/.mim/configs/faster_rcnn/faster-rcnn_r50_fpn_1x_coco.py\<close>, lines 6 to 20.\<close>

definition faster_rcnn_r50_fpn_1x_coco :: config where
  "faster_rcnn_r50_fpn_1x_coco =
     (let max_epochs = 58 in
      \<lparr> max_epochs = max_epochs,
        param_scheduler =
          [LinearLR (1 / 1000) False 0 500,
           MultiStepLR 0 max_epochs True [38, 54] (1 / 10)],
        train_cfg_max_epochs = max_epochs \<rparr>)"

section \<open>Vocabulary of the properties\<close>

text \<open>
  The properties below speak about the layers of a head and about the channels of a
  feature map. \<open>run_convs\<close> passes a feature through conv modules in order, each with its
  activation; \<open>pre_activation convs k x\<close> is what conv layer number \<open>k\<close> (counted from 1)
  produces before its activation; \<open>layers_from convs a b\<close> are the layers \<open>convs[i]\<close> for
  \<open>i\<close> from \<open>a\<close> to \<open>b - 1\<close>. \<open>held_feature convs k x\<close> is what the held name reads after
  layer \<open>k\<close>: the activated values when the layer's activation is in place, the values
  before the activation otherwise.
\<close>

definition run_convs :: "conv_module list \<Rightarrow> tensor \<Rightarrow> tensor" where
  "run_convs convs x = foldl (\<lambda>feat conv. call_conv conv feat) x convs"

definition pre_activation :: "conv_module list \<Rightarrow> nat \<Rightarrow> tensor \<Rightarrow> tensor" where
  "pre_activation convs k x = conv_norm (convs ! (k - 1)) (run_convs (take (k - 1) convs) x)"

definition layers_from :: "conv_module list \<Rightarrow> nat \<Rightarrow> nat \<Rightarrow> conv_module list" where
  "layers_from convs a b = map (\<lambda>i. convs ! i) [a..<b]"

definition held_feature :: "conv_module list \<Rightarrow> nat \<Rightarrow> tensor \<Rightarrow> tensor" where
  "held_feature convs k x =
     (if inplace (convs ! (k - 1))
      then activate (convs ! (k - 1)) (pre_activation convs k x)
      else pre_activation convs k x)"

text \<open>
  \<open>channel t c\<close> lists the elements \<open>t[i, c, y, x]\<close> of a tensor of shape
  \<open>(n, k, h, w)\<close>, by \<open>i\<close>, then \<open>y\<close>, then \<open>x\<close>: the elements over which the per-channel
  mean and deviation of \<open>t\<close> are taken. \<open>aligned_channel stu tea c\<close> is channel \<open>c\<close> of the
  student, normalised with its own statistics (and the constant \<open>1e-6\<close>) and rescaled
  with the teacher's.
\<close>

definition channel :: "tensor \<Rightarrow> nat \<Rightarrow> real list" where
  "channel t c =
     (case shape t of
        [n, k, h, w] \<Rightarrow>
          concat (map (\<lambda>i. slice ((i * k + c) * (h * w)) (h * w) (data t)) [0..<n])
      | _ \<Rightarrow> [])"

definition aligned_channel :: "tensor \<Rightarrow> tensor \<Rightarrow> nat \<Rightarrow> real list" where
  "aligned_channel stu tea c =
     map (\<lambda>x. (x - mean (channel stu c)) / (std (channel stu c) + 1 / 1000000) *
                 std (channel tea c) + mean (channel tea c))
         (channel stu c)"

text \<open>
  The names below cut \<open>loss_by_feat\<close> and \<open>loss\<close> at the places the properties speak
  about. \<open>cls_reg_targets\<close> is the tuple that \<open>get_targets\<close> returns inside
  \<open>loss_by_feat\<close>; \<open>loss_dict\<close> is the dictionary built from the per-level results
  \<open>det\<close> and \<open>kd\<close> and the two denominators; \<open>teacher_outputs\<close> and \<open>student_outputs\<close>
  are the results of the two \<open>multi_apply\<close> calls of \<open>forward_crosskd_single\<close> in \<open>loss\<close>,
  and \<open>reused_outputs\<close> those of the call of \<open>reuse_teacher_head\<close> on their held features.
  Lemmas \<open>loss_by_feat_unfold\<close> and \<open>loss_unfold\<close> show that the two functions compute
  exactly these.
\<close>

definition cls_reg_targets ::
  "('a, 'y, 'g, 'm) crosskd_gfl \<Rightarrow> tensor list \<Rightarrow> 'g list \<Rightarrow> 'm list \<Rightarrow> 'g list \<Rightarrow>
   'a list \<times> 'y list \<times> tensor list \<times> 'y list \<times> 'y list \<times> real" where
  "cls_reg_targets self cls_scores batch_gt_instances batch_img_metas batch_gt_instances_ignore =
     (let featmap_sizes = map (\<lambda>featmap. drop (length (shape featmap) - 2) (shape featmap))
                              cls_scores;
          (anchor_list, valid_flag_list) =
              get_anchors (bbox_head self) featmap_sizes batch_img_metas
      in get_targets (bbox_head self) anchor_list valid_flag_list batch_gt_instances
           batch_img_metas batch_gt_instances_ignore)"

definition loss_dict ::
  "('a, 'y, 'g, 'm) crosskd_gfl \<Rightarrow> (real \<times> real \<times> real \<times> real) list \<Rightarrow> real \<Rightarrow>
   (real \<times> real \<times> real) list \<Rightarrow> real \<Rightarrow> tensor list \<Rightarrow> tensor list \<Rightarrow> (string \<rightharpoonup> real list)" where
  "loss_dict self det new_avg_factor kd kd_avg_factor feats tea_feats =
     (let losses =
        [''loss_cls'' \<mapsto> map fst det,
         ''loss_bbox'' \<mapsto> map (\<lambda>x. x / new_avg_factor) (map (\<lambda>r. fst (snd r)) det),
         ''loss_dfl'' \<mapsto> map (\<lambda>x. x / new_avg_factor) (map (\<lambda>r. fst (snd (snd r))) det),
         ''loss_cls_kd'' \<mapsto> map fst kd,
         ''loss_reg_kd'' \<mapsto> map (\<lambda>x. x / kd_avg_factor) (map (\<lambda>r. fst (snd r)) kd)]
      in if with_feat_distill self
         then losses(''loss_feat_kd'' \<mapsto>
                map (\<lambda>(feat, tea_feat). loss_feat_kd self feat tea_feat) (zip feats tea_feats))
         else losses)"

definition teacher_outputs ::
  "('a, 'y, 'g, 'm) crosskd_gfl \<Rightarrow> tensor \<Rightarrow> (tensor \<times> tensor \<times> tensor \<times> tensor) list" where
  "teacher_outputs self batch_inputs =
     map (\<lambda>(x, scale). forward_crosskd_single self x scale (teacher self))
         (zip (extract_feat (teacher self) batch_inputs) (scales (bbox_head (teacher self))))"

definition student_outputs ::
  "('a, 'y, 'g, 'm) crosskd_gfl \<Rightarrow> tensor \<Rightarrow> (tensor \<times> tensor \<times> tensor \<times> tensor) list" where
  "student_outputs self batch_inputs =
     map (\<lambda>(x, scale). forward_crosskd_single self x scale self)
         (zip (extract_feat self batch_inputs) (scales (bbox_head self)))"

definition reused_outputs ::
  "('a, 'y, 'g, 'm) crosskd_gfl \<Rightarrow> tensor \<Rightarrow> error + (tensor \<times> tensor) list" where
  "reused_outputs self batch_inputs =
     (let tea = teacher_outputs self batch_inputs;
          stu = student_outputs self batch_inputs
      in map_err (\<lambda>i. reuse_teacher_head self
                         (fst (snd (snd (tea ! i)))) (snd (snd (snd (tea ! i))))
                         (fst (snd (snd (stu ! i)))) (snd (snd (snd (stu ! i))))
                         (scales (bbox_head (teacher self)) ! i))
           [0..<Min {length tea, length stu, length (scales (bbox_head (teacher self)))}])"

section \<open>A small detector\<close>

text \<open>
  A concrete student and teacher on which the properties are run: one scale level,
  backbones that add 1 to the input, heads of two conv layers that subtract 1 and 2 and
  apply ReLU in place, feature maps of three images with one channel and one location,
  and framework functions that return constants.
\<close>

definition ex_conv :: conv_module where
  "ex_conv = \<lparr> conv_norm = (\<lambda>t. Tensor (shape t) (map (\<lambda>v. v - 1) (data t))),
               activate = relu, inplace = True \<rparr>"

definition ex_conv2 :: conv_module where
  "ex_conv2 = \<lparr> conv_norm = (\<lambda>t. Tensor (shape t) (map (\<lambda>v. v - 2) (data t))),
                activate = relu, inplace = True \<rparr>"

definition ex_head :: "(unit, unit, unit, unit) head" where
  "ex_head =
     \<lparr> stacked_convs = 2,
       cls_convs = [ex_conv, ex_conv2],
       reg_convs = [ex_conv, ex_conv2],
       gfl_cls = (\<lambda>t. t),
       gfl_reg = (\<lambda>t. Tensor [hd (shape t), 4, 1, 1] (expand4 (data t))),
       scales = [\<lambda>t. t],
       cls_out_channels = 1,
       reg_max = 0,
       num_levels = 1,
       strides = [(8, 8)],
       get_anchors = (\<lambda>sizes metas. ((), ())),
       get_targets = (\<lambda>anchors flags gts metas ignored.
                        ([()], [()], [Tensor [3] [1, 0, 1]], [()], [()], 2)),
       loss_by_feat_single = (\<lambda>anchors cls_score bbox_pred labels label_weights
                                bbox_targets stride avg_factor. (1, 2, 3, 4)) \<rparr>"

definition ex_teacher :: "(unit, unit, unit, unit) single_stage_detector" where
  "ex_teacher = \<lparr> extract_feat = (\<lambda>x. [Tensor (shape x) (map (\<lambda>v. v + 1) (data x))]),
                  bbox_head = ex_head \<rparr>"

definition ex_detector :: "(unit, unit, unit, unit) crosskd_gfl" where
  "ex_detector =
     \<lparr> extract_feat = (\<lambda>x. [Tensor (shape x) (map (\<lambda>v. v + 1) (data x))]),
       bbox_head = ex_head,
       teacher = ex_teacher,
       reused_teacher_head_idx = 1,
       with_feat_distill = False,
       loss_cls_kd = (\<lambda>pred target weight avg_factor. 5),
       loss_reg_kd = (\<lambda>pred target weight avg_factor. sum_list weight / avg_factor),
       loss_feat_kd = (\<lambda>feat tea_feat. 7) \<rparr>"

definition ex_utils :: "(unit, unit, unit) utils" where
  "ex_utils = \<lparr> reduce_mean = (\<lambda>v. v), unpack_gt_instances = (\<lambda>samples. ([], [], [])) \<rparr>"

definition ex_feat :: tensor where
  "ex_feat = Tensor [3, 1, 1, 1] [0, 1, 2]"

section \<open>Properties of the configurations\<close>

text \<open>
  Claim C10. Both training configurations set \<open>max_epochs\<close> to 58 and carry the same
  learning-rate schedule: a linear warmup with start factor 0.001, counted in iterations
  (\<open>by_epoch = False\<close>) from 0 to 500, followed by a multi-step schedule over the epochs
  0 to 58 that multiplies the rate by 0.1 at the epochs 38 and 54.
\<close>

theorem configs_same_schedule:
  "max_epochs our_r50_fpn_ms_2x_coco = 58 \<and>
   max_epochs faster_rcnn_r50_fpn_1x_coco = 58 \<and>
   train_cfg_max_epochs our_r50_fpn_ms_2x_coco = 58 \<and>
   train_cfg_max_epochs faster_rcnn_r50_fpn_1x_coco = 58 \<and>
   param_scheduler our_r50_fpn_ms_2x_coco = param_scheduler faster_rcnn_r50_fpn_1x_coco \<and>
   param_scheduler our_r50_fpn_ms_2x_coco =
     [LinearLR (1 / 1000) False 0 500, MultiStepLR 0 58 True [38, 54] (1 / 10)]"
  by (simp add: our_r50_fpn_ms_2x_coco_def faster_rcnn_r50_fpn_1x_coco_def)

section \<open>The conv loops of the heads\<close>

lemma hold_loop_feat:
  "fst (hold_loop idx i convs (feat, h)) = run_convs convs feat"
  by (induction convs arbitrary: i feat h) (simp_all add: run_convs_def call_conv_def Let_def)

lemma hold_loop_miss:
  "idx \<le> int i \<or> int i + int (length convs) < idx \<Longrightarrow>
   snd (hold_loop idx i convs (feat, h)) = h"
  by (induction convs arbitrary: i feat h) (auto simp add: Let_def)

lemma hold_loop_hit:
  "i < k \<Longrightarrow> k \<le> i + length convs \<Longrightarrow>
   snd (hold_loop (int k) i convs (feat, h)) = held_feature convs (k - i) feat"
proof (induction convs arbitrary: i feat h)
  case Nil
  then show ?case by simp
next
  case (Cons c cs)
  show ?case
  proof (cases "Suc i = k")
    case True
    then show ?thesis
      using hold_loop_miss[of "int k" "Suc i" cs]
      by (simp add: Let_def run_convs_def pre_activation_def held_feature_def)
  next
    case False
    with Cons.prems have "Suc i < k" "k \<le> Suc i + length cs" by simp_all
    moreover have "k - i - 1 = Suc (k - Suc i - 1)" using \<open>Suc i < k\<close> by simp
    ultimately show ?thesis
      using Cons.IH[of "Suc i" "activate c (conv_norm c feat)"] False
      by (simp add: Let_def run_convs_def call_conv_def pre_activation_def held_feature_def)
  qed
qed

lemma hold_loop_at:
  assumes "0 < k" "k \<le> length convs"
  shows "hold_loop (int k) 0 convs (x, x) = (run_convs convs x, held_feature convs k x)"
  using hold_loop_feat[of "int k" 0 convs x x] hold_loop_hit[of 0 k convs x x] assms
  by (simp add: prod_eq_iff)

lemma hold_loop_outside:
  assumes "idx \<le> 0 \<or> int (length convs) < idx"
  shows "hold_loop idx 0 convs (x, x) = (run_convs convs x, x)"
  using hold_loop_feat[of idx 0 convs x x] hold_loop_miss[of idx 0 convs x x] assms
  by (simp add: prod_eq_iff)

lemma run_convs_append: "run_convs (as @ bs) x = run_convs bs (run_convs as x)"
  by (simp add: run_convs_def)

lemma layers_from_drop: "layers_from convs k (length convs) = drop k convs"
  by (rule nth_equalityI) (simp_all add: layers_from_def)

lemma layers_from_take: "n \<le> length convs \<Longrightarrow> layers_from convs 0 n = take n convs"
  by (rule nth_equalityI) (simp_all add: layers_from_def)

lemma run_convs_resume:
  assumes "0 < k" "k \<le> length convs"
  shows "run_convs convs x =
         run_convs (layers_from convs k (length convs))
           (activate (convs ! (k - 1)) (pre_activation convs k x))"
proof -
  from assms have k: "k - 1 < length convs" by simp
  have "convs = take (k - 1) convs @ convs ! (k - 1) # drop k convs"
    using id_take_nth_drop[OF k] assms by simp
  then have "run_convs convs x =
      run_convs (take (k - 1) convs @ convs ! (k - 1) # drop k convs) x" by simp
  also have "\<dots> = run_convs (drop k convs)
      (call_conv (convs ! (k - 1)) (run_convs (take (k - 1) convs) x))"
    unfolding run_convs_append by (simp add: run_convs_def)
  finally show ?thesis
    by (simp add: layers_from_drop pre_activation_def call_conv_def)
qed

lemma py_range_nat: "py_range (int a) (int b) = map int [a..<b]"
proof -
  have "map (\<lambda>k. int a + int k) [0..<b - a] = map int (map (\<lambda>i. i + a) [0..<b - a])"
    by (simp add: add.commute)
  also have "map (\<lambda>i. i + a) [0..<b - a] = [a..<b]"
    by (cases "a \<le> b") (simp_all add: map_add_upt)
  finally show ?thesis
    by (simp add: py_range_def nat_diff_distrib' del: map_map)
qed

lemma getitem_nat: "i < length xs \<Longrightarrow> getitem xs (int i) = Inr (xs ! i)"
  by (simp add: getitem_def)

lemma reuse_loop_indices:
  "\<forall>i \<in> set ns. i < length (cls_convs M) \<and> i < length (reg_convs M) \<Longrightarrow>
   reuse_loop M (map int ns) (c, r) =
     Inr (run_convs (map (\<lambda>i. cls_convs M ! i) ns) c, run_convs (map (\<lambda>i. reg_convs M ! i) ns) r)"
  by (induction ns arbitrary: c r)
     (simp_all add: run_convs_def getitem_nat bind_err_def Let_def)

lemma reuse_loop_range:
  assumes "b \<le> length (cls_convs M)" "b \<le> length (reg_convs M)"
  shows "reuse_loop M (py_range (int a) (int b)) (c, r) =
     Inr (run_convs (layers_from (cls_convs M) a b) c, run_convs (layers_from (reg_convs M) a b) r)"
  unfolding py_range_nat layers_from_def
  using assms by (intro reuse_loop_indices) auto

lemma upt_3: "[0..<3] = [0, 1, 2]" by (simp add: upt_rec)

lemma replicate_4: "replicate 4 v = [v, v, v, v]"
  by (simp add: numeral_eq_Suc)

lemma std_012: "std [0, 1, 2] = 1"
  by (simp add: std_def mean_def)

lemma mean_012: "mean [0, 1, 2] = 1"
  by (simp add: mean_def)

lemma ex_align: "align_scale ex_feat ex_feat =
  Inr (Tensor [3, 1, 1, 1] [1 / 1000001, 1, 2000001 / 1000001])"
  by (simp add: align_scale_def ex_feat_def permute1023_def reshape_rows_def rows2d_def slice_def
      tensor_mean_def tensor_std_def bind_err_def upt_3 std_012 mean_012 Let_def)

section \<open>Partial forward passes through the heads\<close>

text \<open>
  With \<open>reused_teacher_head_idx = k\<close>, \<open>1 \<le> k\<close> and \<open>k\<close> at most the number of conv layers
  of the head, \<open>forward_crosskd_single\<close> returns the head's own predictions and, as held
  features, what the held names read after layer \<open>k\<close> of the two towers.
\<close>

lemma forward_crosskd_single_held:
  fixes self :: "('a, 'y, 'g, 'm) crosskd_gfl"
    and modul :: "('a, 'y, 'g, 'm, 'z) single_stage_detector_scheme"
  assumes idx: "reused_teacher_head_idx self = int k" "0 < k"
    and modul: "k \<le> length (cls_convs (bbox_head modul))"
               "k \<le> length (reg_convs (bbox_head modul))"
  shows "forward_crosskd_single self x scale modul =
           (gfl_cls (bbox_head modul) (run_convs (cls_convs (bbox_head modul)) x),
            scale (gfl_reg (bbox_head modul) (run_convs (reg_convs (bbox_head modul)) x)),
            held_feature (cls_convs (bbox_head modul)) k x,
            held_feature (reg_convs (bbox_head modul)) k x)"
  by (simp add: forward_crosskd_single_def idx(1) hold_loop_at[OF idx(2) modul(1)]
      hold_loop_at[OF idx(2) modul(2)])

text \<open>
  \<open>reuse_teacher_head\<close> applies ReLU to the aligned student features and then the
  teacher's \<open>cls_convs[i]\<close> and \<open>reg_convs[i]\<close> for \<open>i\<close> from \<open>k\<close> to \<open>stacked_convs - 1\<close>, then
  \<open>gfl_cls\<close> and the scaled \<open>gfl_reg\<close>.
\<close>

lemma reuse_teacher_head_resumes:
  fixes self :: "('a, 'y, 'g, 'm) crosskd_gfl"
  assumes idx: "reused_teacher_head_idx self = int k" "0 < k"
    and T: "stacked_convs (bbox_head (teacher self)) = int n"
           "n \<le> length (cls_convs (bbox_head (teacher self)))"
           "n \<le> length (reg_convs (bbox_head (teacher self)))"
    and al: "align_scale stu_cls_feat tea_cls_feat = Inr aligned_cls"
            "align_scale stu_reg_feat tea_reg_feat = Inr aligned_reg"
  shows "reuse_teacher_head self tea_cls_feat tea_reg_feat stu_cls_feat stu_reg_feat scale =
           Inr (gfl_cls (bbox_head (teacher self))
                  (run_convs (layers_from (cls_convs (bbox_head (teacher self))) k n)
                     (relu aligned_cls)),
                scale (gfl_reg (bbox_head (teacher self))
                  (run_convs (layers_from (reg_convs (bbox_head (teacher self))) k n)
                     (relu aligned_reg))))"
proof -
  have "k \<noteq> 0" using idx(2) by simp
  then show ?thesis
    by (simp add: reuse_teacher_head_def al bind_err_def idx(1) T(1) Let_def
        reuse_loop_range[OF T(2,3)])
qed

lemma ex_run_convs:
  "run_convs [ex_conv, ex_conv2] (Tensor s [a, b, c]) =
     Tensor s [max 0 (max 0 (a - 1) - 2), max 0 (max 0 (b - 1) - 2), max 0 (max 0 (c - 1) - 2)]"
  by (simp add: run_convs_def call_conv_def ex_conv_def ex_conv2_def relu_def)

text \<open>
  Claim C3. The claim has \<open>forward_crosskd_single\<close> record the features of conv layer
  number \<open>reused_teacher_head_idx\<close> before their activation. The code does not: on the
  small detector, whose layers activate in place as the layers of the framework's head do,
  the first layer of either tower of the teacher produces \<open>(-1, 0, 1)\<close> from the feature
  \<open>(0, 1, 2)\<close>, and with the index 1 the held features that \<open>forward_crosskd_single\<close>
  returns are the rectified \<open>(0, 0, 1)\<close>.
\<close>

theorem held_features_rectified:
  "reused_teacher_head_idx ex_detector = 1 \<and>
   inplace (cls_convs (bbox_head ex_teacher) ! 0) \<and>
   inplace (reg_convs (bbox_head ex_teacher) ! 0) \<and>
   pre_activation (cls_convs (bbox_head ex_teacher)) 1 ex_feat = Tensor [3, 1, 1, 1] [-1, 0, 1] \<and>
   pre_activation (reg_convs (bbox_head ex_teacher)) 1 ex_feat = Tensor [3, 1, 1, 1] [-1, 0, 1] \<and>
   forward_crosskd_single ex_detector ex_feat (\<lambda>t. t) ex_teacher =
     (Tensor [3, 1, 1, 1] [0, 0, 0],
      Tensor [3, 4, 1, 1] [0, 0, 0, 0, 0, 0, 0, 0, 0, 0, 0, 0],
      Tensor [3, 1, 1, 1] [0, 0, 1],
      Tensor [3, 1, 1, 1] [0, 0, 1])"
proof -
  have h1: "reused_teacher_head_idx ex_detector = 1" by (simp add: ex_detector_def)
  have h2: "inplace (cls_convs (bbox_head ex_teacher) ! 0)"
    by (simp add: ex_teacher_def ex_head_def ex_conv_def)
  have h3: "inplace (reg_convs (bbox_head ex_teacher) ! 0)"
    by (simp add: ex_teacher_def ex_head_def ex_conv_def)
  have p1: "pre_activation (cls_convs (bbox_head ex_teacher)) 1 ex_feat =
      Tensor [3, 1, 1, 1] [-1, 0, 1]"
    by (simp add: ex_teacher_def ex_head_def pre_activation_def run_convs_def ex_conv_def
        ex_feat_def)
  have p2: "pre_activation (reg_convs (bbox_head ex_teacher)) 1 ex_feat =
      Tensor [3, 1, 1, 1] [-1, 0, 1]"
    by (simp add: ex_teacher_def ex_head_def pre_activation_def run_convs_def ex_conv_def
        ex_feat_def)
  have f: "forward_crosskd_single ex_detector ex_feat (\<lambda>t. t) ex_teacher =
     (Tensor [3, 1, 1, 1] [0, 0, 0],
      Tensor [3, 4, 1, 1] [0, 0, 0, 0, 0, 0, 0, 0, 0, 0, 0, 0],
      Tensor [3, 1, 1, 1] [0, 0, 1],
      Tensor [3, 1, 1, 1] [0, 0, 1])"
    unfolding forward_crosskd_single_def h1
    by (simp add: ex_teacher_def ex_head_def ex_conv_def ex_conv2_def relu_def ex_feat_def
        expand4_def replicate_4 Let_def)
  from h1 h2 h3 p1 p2 f show ?thesis by (intro conjI)
qed

section \<open>The reuse index at its edges\<close>

text \<open>
  Claim C8. When \<open>reused_teacher_head_idx\<close> is 0, or larger than the number of conv
  layers of both towers, the held features that \<open>forward_crosskd_single\<close> returns are its
  input \<open>x\<close> itself. When the index is 0, \<open>reuse_teacher_head\<close> applies no ReLU: it runs
  the first \<open>stacked_convs\<close> layers of the teacher's towers, that is all of them, on the
  aligned features as \<open>align_scale\<close> returned them.
\<close>

theorem reuse_index_edge_cases:
  fixes self :: "('a, 'y, 'g, 'm) crosskd_gfl"
    and modul :: "('a, 'y, 'g, 'm, 'z) single_stage_detector_scheme"
  shows
  "(reused_teacher_head_idx self = 0 \<or>
    (int (length (cls_convs (bbox_head modul))) < reused_teacher_head_idx self \<and>
     int (length (reg_convs (bbox_head modul))) < reused_teacher_head_idx self) \<longrightarrow>
    forward_crosskd_single self x scale modul =
      (gfl_cls (bbox_head modul) (run_convs (cls_convs (bbox_head modul)) x),
       scale (gfl_reg (bbox_head modul) (run_convs (reg_convs (bbox_head modul)) x)),
       x, x)) \<and>
   (reused_teacher_head_idx self = 0 \<and>
    stacked_convs (bbox_head (teacher self)) = int n \<and>
    n \<le> length (cls_convs (bbox_head (teacher self))) \<and>
    n \<le> length (reg_convs (bbox_head (teacher self))) \<and>
    align_scale stu_cls_feat tea_cls_feat = Inr aligned_cls \<and>
    align_scale stu_reg_feat tea_reg_feat = Inr aligned_reg \<longrightarrow>
    reuse_teacher_head self tea_cls_feat tea_reg_feat stu_cls_feat stu_reg_feat scale' =
      Inr (gfl_cls (bbox_head (teacher self))
             (run_convs (take n (cls_convs (bbox_head (teacher self)))) aligned_cls),
           scale' (gfl_reg (bbox_head (teacher self))
             (run_convs (take n (reg_convs (bbox_head (teacher self)))) aligned_reg))))"
proof (intro conjI impI)
  assume a: "reused_teacher_head_idx self = 0 \<or>
    (int (length (cls_convs (bbox_head modul))) < reused_teacher_head_idx self \<and>
     int (length (reg_convs (bbox_head modul))) < reused_teacher_head_idx self)"
  then have c: "reused_teacher_head_idx self \<le> 0 \<or>
      int (length (cls_convs (bbox_head modul))) < reused_teacher_head_idx self"
    and r: "reused_teacher_head_idx self \<le> 0 \<or>
      int (length (reg_convs (bbox_head modul))) < reused_teacher_head_idx self"
    by auto
  show "forward_crosskd_single self x scale modul =
      (gfl_cls (bbox_head modul) (run_convs (cls_convs (bbox_head modul)) x),
       scale (gfl_reg (bbox_head modul) (run_convs (reg_convs (bbox_head modul)) x)),
       x, x)"
    by (simp add: forward_crosskd_single_def hold_loop_outside[OF c] hold_loop_outside[OF r])
next
  assume a: "reused_teacher_head_idx self = 0 \<and>
    stacked_convs (bbox_head (teacher self)) = int n \<and>
    n \<le> length (cls_convs (bbox_head (teacher self))) \<and>
    n \<le> length (reg_convs (bbox_head (teacher self))) \<and>
    align_scale stu_cls_feat tea_cls_feat = Inr aligned_cls \<and>
    align_scale stu_reg_feat tea_reg_feat = Inr aligned_reg"
  then have n: "n \<le> length (cls_convs (bbox_head (teacher self)))"
      "n \<le> length (reg_convs (bbox_head (teacher self)))" by simp_all
  have "reuse_loop (bbox_head (teacher self)) (py_range (int 0) (int n))
          (aligned_cls, aligned_reg) =
        Inr (run_convs (take n (cls_convs (bbox_head (teacher self)))) aligned_cls,
             run_convs (take n (reg_convs (bbox_head (teacher self)))) aligned_reg)"
    unfolding reuse_loop_range[OF n] by (simp add: layers_from_take n)
  with a show "reuse_teacher_head self tea_cls_feat tea_reg_feat stu_cls_feat stu_reg_feat scale' =
      Inr (gfl_cls (bbox_head (teacher self))
             (run_convs (take n (cls_convs (bbox_head (teacher self)))) aligned_cls),
           scale' (gfl_reg (bbox_head (teacher self))
             (run_convs (take n (reg_convs (bbox_head (teacher self)))) aligned_reg)))"
    by (simp add: reuse_teacher_head_def bind_err_def Let_def)
qed

text \<open>The small detector with the reuse index set to 0, and to 5 with its heads of 2 layers.\<close>

theorem reuse_index_edge_cases_witness:
  "reused_teacher_head_idx (ex_detector\<lparr>reused_teacher_head_idx := 0\<rparr>) = 0 \<and>
   stacked_convs (bbox_head (teacher (ex_detector\<lparr>reused_teacher_head_idx := 0\<rparr>))) = int 2 \<and>
   2 \<le> length (cls_convs (bbox_head (teacher (ex_detector\<lparr>reused_teacher_head_idx := 0\<rparr>)))) \<and>
   2 \<le> length (reg_convs (bbox_head (teacher (ex_detector\<lparr>reused_teacher_head_idx := 0\<rparr>)))) \<and>
   align_scale ex_feat ex_feat = Inr (Tensor [3, 1, 1, 1] [1 / 1000001, 1, 2000001 / 1000001]) \<and>
   forward_crosskd_single (ex_detector\<lparr>reused_teacher_head_idx := 0\<rparr>) ex_feat (\<lambda>t. t) ex_teacher =
     (Tensor [3, 1, 1, 1] [0, 0, 0],
      Tensor [3, 4, 1, 1] [0, 0, 0, 0, 0, 0, 0, 0, 0, 0, 0, 0],
      ex_feat, ex_feat) \<and>
   reuse_teacher_head (ex_detector\<lparr>reused_teacher_head_idx := 0\<rparr>)
       ex_feat ex_feat ex_feat ex_feat (\<lambda>t. t) =
     Inr (Tensor [3, 1, 1, 1] [0, 0, 0],
          Tensor [3, 4, 1, 1] [0, 0, 0, 0, 0, 0, 0, 0, 0, 0, 0, 0]) \<and>
   int (length (cls_convs (bbox_head ex_teacher))) <
     reused_teacher_head_idx (ex_detector\<lparr>reused_teacher_head_idx := 5\<rparr>) \<and>
   int (length (reg_convs (bbox_head ex_teacher))) <
     reused_teacher_head_idx (ex_detector\<lparr>reused_teacher_head_idx := 5\<rparr>) \<and>
   forward_crosskd_single (ex_detector\<lparr>reused_teacher_head_idx := 5\<rparr>) ex_feat (\<lambda>t. t) ex_teacher =
     (Tensor [3, 1, 1, 1] [0, 0, 0],
      Tensor [3, 4, 1, 1] [0, 0, 0, 0, 0, 0, 0, 0, 0, 0, 0, 0],
      ex_feat, ex_feat)"
proof -
  let ?d0 = "ex_detector\<lparr>reused_teacher_head_idx := 0\<rparr>"
  let ?d5 = "ex_detector\<lparr>reused_teacher_head_idx := 5\<rparr>"
  have h1: "reused_teacher_head_idx ?d0 = 0" by simp
  have h2: "stacked_convs (bbox_head (teacher ?d0)) = int 2"
    by (simp add: ex_detector_def ex_teacher_def ex_head_def)
  have h3: "2 \<le> length (cls_convs (bbox_head (teacher ?d0)))"
    by (simp add: ex_detector_def ex_teacher_def ex_head_def)
  have h4: "2 \<le> length (reg_convs (bbox_head (teacher ?d0)))"
    by (simp add: ex_detector_def ex_teacher_def ex_head_def)
  have h5: "int (length (cls_convs (bbox_head ex_teacher))) < reused_teacher_head_idx ?d5"
    by (simp add: ex_teacher_def ex_head_def)
  have h6: "int (length (reg_convs (bbox_head ex_teacher))) < reused_teacher_head_idx ?d5"
    by (simp add: ex_teacher_def ex_head_def)
  note th0 = reuse_index_edge_cases[where self = ?d0 and modul = ex_teacher and n = 2
      and x = ex_feat and scale = "\<lambda>t. t" and scale' = "\<lambda>t. t"
      and stu_cls_feat = ex_feat and tea_cls_feat = ex_feat
      and stu_reg_feat = ex_feat and tea_reg_feat = ex_feat
      and aligned_cls = "Tensor [3, 1, 1, 1] [1 / 1000001, 1, 2000001 / 1000001]"
      and aligned_reg = "Tensor [3, 1, 1, 1] [1 / 1000001, 1, 2000001 / 1000001]"]
  note th5 = reuse_index_edge_cases[where self = ?d5 and modul = ex_teacher
      and x = ex_feat and scale = "\<lambda>t. t"]
  have tower: "run_convs [ex_conv, ex_conv2] ex_feat = Tensor [3, 1, 1, 1] [0, 0, 0]"
    by (simp add: ex_feat_def ex_run_convs)
  have c1: "forward_crosskd_single ?d0 ex_feat (\<lambda>t. t) ex_teacher =
     (Tensor [3, 1, 1, 1] [0, 0, 0],
      Tensor [3, 4, 1, 1] [0, 0, 0, 0, 0, 0, 0, 0, 0, 0, 0, 0], ex_feat, ex_feat)"
    using th0[THEN conjunct1] h1
    by (simp add: ex_teacher_def ex_head_def tower expand4_def replicate_4)
  have c2: "reuse_teacher_head ?d0 ex_feat ex_feat ex_feat ex_feat (\<lambda>t. t) =
     Inr (Tensor [3, 1, 1, 1] [0, 0, 0],
          Tensor [3, 4, 1, 1] [0, 0, 0, 0, 0, 0, 0, 0, 0, 0, 0, 0])"
    using th0[THEN conjunct2] h1 h2 h3 h4 ex_align
    by (simp add: ex_detector_def ex_teacher_def ex_head_def ex_run_convs expand4_def
        replicate_4)
  have c3: "forward_crosskd_single ?d5 ex_feat (\<lambda>t. t) ex_teacher =
     (Tensor [3, 1, 1, 1] [0, 0, 0],
      Tensor [3, 4, 1, 1] [0, 0, 0, 0, 0, 0, 0, 0, 0, 0, 0, 0], ex_feat, ex_feat)"
    using th5[THEN conjunct1] h5 h6
    by (simp add: ex_teacher_def ex_head_def tower expand4_def replicate_4)
  show ?thesis
    using h1 h2 h3 h4 ex_align c1 c2 h5 h6 c3 by (intro conjI)
qed

section \<open>Slices of row-major data\<close>

lemma slice_concat_uniform:
  "\<forall>x \<in> set xss. length x = k \<Longrightarrow> i < length xss \<Longrightarrow> slice (i * k) k (concat xss) = xss ! i"
proof (induction xss arbitrary: i)
  case Nil
  then show ?case by simp
next
  case (Cons x xs)
  show ?case
  proof (cases i)
    case 0
    with Cons.prems show ?thesis by (simp add: slice_def)
  next
    case (Suc j)
    with Cons.prems Cons.IH[of j] show ?thesis by (simp add: slice_def)
  qed
qed

lemma length_concat_uniform:
  "\<forall>x \<in> set xss. length x = k \<Longrightarrow> length (concat xss) = length xss * k"
  by (induction xss) simp_all

lemma rows2d_concat:
  assumes "\<forall>x \<in> set xss. length x = k"
  shows "rows2d (length xss) k (concat xss) = xss"
  by (rule nth_equalityI) (simp_all add: rows2d_def slice_concat_uniform[OF assms])

lemma slice_in_row:
  assumes "\<forall>x \<in> set xss. length x = m" "c < length xss" "off + len \<le> m"
  shows "slice (c * m + off) len (concat xss) = slice off len (xss ! c)"
proof -
  have "xss ! c = take m (drop (c * m) (concat xss))"
    using slice_concat_uniform[OF assms(1,2)] by (simp add: slice_def)
  then show ?thesis
    using assms(3) by (simp add: slice_def drop_take add.commute min_def)
qed

lemma concat_slices_take:
  "concat (map (\<lambda>i. slice (i * k) k xs) [0..<n]) = take (n * k) xs"
proof (induction n)
  case 0
  then show ?case by simp
next
  case (Suc n)
  have "take (Suc n * k) xs = take (n * k + k) xs" by (simp add: add.commute)
  also have "\<dots> = take (n * k) xs @ take k (drop (n * k) xs)" by (rule take_add)
  finally show ?case using Suc by (simp add: slice_def)
qed

lemma concat_slices:
  "length xs = n * k \<Longrightarrow> concat (map (\<lambda>i. slice (i * k) k xs) [0..<n]) = xs"
  by (simp add: concat_slices_take)

lemma length_slice: "off + len \<le> length xs \<Longrightarrow> length (slice off len xs) = len"
  by (simp add: slice_def)

section \<open>Channels of a feature map\<close>

lemma permute1023_channels:
  "shape t = [n, k, h, w] \<Longrightarrow>
   permute1023 t = Inr (Tensor [k, n, h, w] (concat (map (channel t) [0..<k])))"
proof -
  assume s: "shape t = [n, k, h, w]"
  have "channel t = (\<lambda>c. concat (map (\<lambda>i. slice ((i * k + c) * (h * w)) (h * w) (data t)) [0..<n]))"
    by (rule ext) (simp add: channel_def s)
  then show ?thesis by (simp add: permute1023_def s)
qed

lemma block_bound:
  fixes i k c n m :: nat
  assumes "i < n" "c < k"
  shows "(i * k + c) * m + m \<le> n * k * m"
proof -
  have "i * k + c + 1 \<le> i * k + k" using assms by simp
  also have "\<dots> = Suc i * k" by simp
  also have "\<dots> \<le> n * k" using assms by (intro mult_le_mono1) simp
  finally have "(i * k + c + 1) * m \<le> n * k * m" by (rule mult_le_mono1)
  then show ?thesis by (simp add: algebra_simps)
qed

lemma length_channel:
  assumes "wf_tensor t" "shape t = [n, k, h, w]" "c < k"
  shows "length (channel t c) = n * (h * w)"
proof -
  have len: "length (data t) = n * k * (h * w)"
    using assms(1,2) by (simp add: wf_tensor_def)
  have "\<forall>x \<in> set (map (\<lambda>i. slice ((i * k + c) * (h * w)) (h * w) (data t)) [0..<n]).
          length x = h * w"
  proof
    fix x assume "x \<in> set (map (\<lambda>i. slice ((i * k + c) * (h * w)) (h * w) (data t)) [0..<n])"
    then obtain i where i: "i < n" and x: "x = slice ((i * k + c) * (h * w)) (h * w) (data t)"
      by auto
    from block_bound[OF i assms(3), of "h * w"] len show "length x = h * w"
      unfolding x by (intro length_slice) simp
  qed
  from length_concat_uniform[OF this] show ?thesis
    using assms(2) by (simp add: channel_def)
qed

lemma reshape_rows_channels:
  assumes "wf_tensor t" "shape t = [n, k, h, w]" "0 < k"
  shows "reshape_rows k (concat (map (channel t) [0..<k])) = Inr (map (channel t) [0..<k])"
proof -
  have u: "\<forall>x \<in> set (map (channel t) [0..<k]). length x = n * (h * w)"
    using length_channel[OF assms(1,2)] by auto
  have l: "length (concat (map (channel t) [0..<k])) = k * (n * (h * w))"
    using length_concat_uniform[OF u] by simp
  have "rows2d k (n * (h * w)) (concat (map (channel t) [0..<k])) = map (channel t) [0..<k]"
    using rows2d_concat[OF u] by simp
  then show ?thesis
    using assms(3) by (simp add: reshape_rows_def l)
qed

lemma channel_of_rows:
  assumes rows: "\<forall>x \<in> set rows. length x = n * (h * w)" and k: "length rows = k" and c: "c < k"
  shows "channel (Tensor [n, k, h, w]
           (concat (map (\<lambda>j. concat (map (\<lambda>i. slice ((i * n + j) * (h * w)) (h * w) (concat rows))
                                          [0..<k])) [0..<n]))) c = rows ! c"
proof -
  let ?X = "concat rows"
  let ?B = "\<lambda>j i. slice ((i * n + j) * (h * w)) (h * w) ?X"
  let ?G = "\<lambda>j. concat (map (?B j) [0..<k])"
  have lenX: "length ?X = k * n * (h * w)"
    using length_concat_uniform[OF rows] k by simp
  have lenB: "length (?B j i) = h * w" if "j < n" "i < k" for i j
    using block_bound[OF that(2,1), of "h * w"] lenX by (intro length_slice) simp
  have uB: "\<forall>x \<in> set (map (?B j) [0..<k]). length x = h * w" if "j < n" for j
    using lenB[OF that] by auto
  have lenG: "length (?G j) = k * (h * w)" if "j < n" for j
    using length_concat_uniform[OF uB[OF that]] by simp
  have uG: "\<forall>x \<in> set (map ?G [0..<n]). length x = k * (h * w)"
    using lenG by auto
  have blk: "slice ((j * k + c) * (h * w)) (h * w) (concat (map ?G [0..<n])) =
             slice (j * (h * w)) (h * w) (rows ! c)" if j: "j < n" for j
  proof -
    have "slice ((j * k + c) * (h * w)) (h * w) (concat (map ?G [0..<n])) =
          slice (j * (k * (h * w)) + c * (h * w)) (h * w) (concat (map ?G [0..<n]))"
      by (simp add: algebra_simps)
    also have "\<dots> = slice (c * (h * w)) (h * w) (map ?G [0..<n] ! j)"
    proof (rule slice_in_row[OF uG])
      show "j < length (map ?G [0..<n])" using j by simp
      have "Suc c * (h * w) \<le> k * (h * w)" using c by (intro mult_le_mono1) simp
      then show "c * (h * w) + h * w \<le> k * (h * w)" by simp
    qed
    also have "\<dots> = slice (c * (h * w)) (h * w) (?G j)" using j by simp
    also have "\<dots> = map (?B j) [0..<k] ! c"
      using slice_concat_uniform[OF uB[OF j], of c] c by simp
    also have "\<dots> = slice (c * (n * (h * w)) + j * (h * w)) (h * w) ?X"
      using c by (simp add: algebra_simps)
    also have "\<dots> = slice (j * (h * w)) (h * w) (rows ! c)"
    proof (rule slice_in_row[OF rows])
      show "c < length rows" using c k by simp
      have "Suc j * (h * w) \<le> n * (h * w)" using j by (intro mult_le_mono1) simp
      then show "j * (h * w) + h * w \<le> n * (h * w)" by simp
    qed
    finally show ?thesis .
  qed
  have "channel (Tensor [n, k, h, w] (concat (map ?G [0..<n]))) c =
        concat (map (\<lambda>j. slice ((j * k + c) * (h * w)) (h * w) (concat (map ?G [0..<n]))) [0..<n])"
    by (simp add: channel_def)
  also have "\<dots> = concat (map (\<lambda>j. slice (j * (h * w)) (h * w) (rows ! c)) [0..<n])"
    using blk by (intro arg_cong[where f = concat] map_cong) simp_all
  also have "\<dots> = rows ! c"
  proof (rule concat_slices)
    show "length (rows ! c) = n * (h * w)" using rows c k by simp
  qed
  finally show ?thesis .
qed

section \<open>Mean and deviation under an affine map\<close>

lemma map_err_Inr:
  "\<forall>x \<in> set xs. f x = Inr (g x) \<Longrightarrow> map_err f xs = Inr (map g xs)"
  by (induction xs) (simp_all add: bind_err_def)

lemma sum_list_affine:
  "sum_list (map (\<lambda>x. a * x + b) xs) = a * sum_list xs + b * real (length xs)"
  by (induction xs) (simp_all add: algebra_simps)

lemma mean_affine:
  "xs \<noteq> [] \<Longrightarrow> mean (map (\<lambda>x. a * x + b) xs) = a * mean xs + b"
  by (simp add: mean_def sum_list_affine add_divide_distrib)

lemma sum_list_scale:
  "sum_list (map (\<lambda>x. a * f x) xs) = (a::real) * sum_list (map f xs)"
  by (induction xs) (simp_all add: algebra_simps)

lemma std_affine:
  assumes "xs \<noteq> []"
  shows "std (map (\<lambda>x. a * x + b) xs) = \<bar>a\<bar> * std xs"
proof -
  have "sum_list (map (\<lambda>x. (x - mean (map (\<lambda>x. a * x + b) xs))\<^sup>2) (map (\<lambda>x. a * x + b) xs)) =
        sum_list (map (\<lambda>x. a\<^sup>2 * (x - mean xs)\<^sup>2) xs)"
  proof -
    have "(a * x + b - (a * mean xs + b))\<^sup>2 = a\<^sup>2 * (x - mean xs)\<^sup>2" for x
      by (simp add: power2_eq_square algebra_simps)
    then show ?thesis by (simp add: mean_affine[OF assms] comp_def)
  qed
  also have "\<dots> = a\<^sup>2 * sum_list (map (\<lambda>x. (x - mean xs)\<^sup>2) xs)"
    by (rule sum_list_scale)
  finally have "std (map (\<lambda>x. a * x + b) xs) =
      sqrt (a\<^sup>2 * (sum_list (map (\<lambda>x. (x - mean xs)\<^sup>2) xs) / real (length xs - 1)))"
    by (simp add: std_def)
  also have "\<dots> = \<bar>a\<bar> * std xs"
    unfolding real_sqrt_mult std_def by simp
  finally show ?thesis .
qed

lemma affine_form:
  fixes d :: real
  assumes "0 < d"
  shows "(x - m) / d * t + u = t / d * x + (u - t / d * m)"
  using assms by (simp add: field_simps)

lemma std_nonneg: "0 \<le> std xs"
  unfolding std_def by (intro real_sqrt_ge_zero divide_nonneg_nonneg sum_list_nonneg) auto

lemma mean_aligned_channel:
  assumes "channel stu c \<noteq> []"
  shows "mean (aligned_channel stu tea c) = mean (channel tea c)"
proof -
  let ?s = "std (channel stu c)" and ?m = "mean (channel stu c)"
  let ?a = "std (channel tea c) / (?s + 1 / 1000000)"
  have pos: "0 < ?s + 1 / 1000000" using std_nonneg[of "channel stu c"] by simp
  have eq: "aligned_channel stu tea c =
        map (\<lambda>x. ?a * x + (mean (channel tea c) - ?a * ?m)) (channel stu c)"
    unfolding aligned_channel_def by (rule map_cong[OF refl], rule affine_form[OF pos])
  show ?thesis unfolding eq mean_affine[OF assms] by simp
qed

lemma std_aligned_channel:
  assumes "channel stu c \<noteq> []"
  shows "std (aligned_channel stu tea c) =
         std (channel tea c) * (std (channel stu c) / (std (channel stu c) + 1 / 1000000))"
proof -
  let ?s = "std (channel stu c)" and ?m = "mean (channel stu c)"
  let ?a = "std (channel tea c) / (?s + 1 / 1000000)"
  have pos: "0 < ?s + 1 / 1000000" using std_nonneg[of "channel stu c"] by simp
  have a: "0 \<le> ?a" using std_nonneg[of "channel tea c"] pos by simp
  have eq: "aligned_channel stu tea c =
        map (\<lambda>x. ?a * x + (mean (channel tea c) - ?a * ?m)) (channel stu c)"
    unfolding aligned_channel_def by (rule map_cong[OF refl], rule affine_form[OF pos])
  have "std (aligned_channel stu tea c) = \<bar>?a\<bar> * ?s"
    unfolding eq by (rule std_affine[OF assms])
  also have "\<bar>?a\<bar> = ?a" using a by (rule abs_of_nonneg)
  finally show ?thesis by simp
qed

lemma stats_rows:
  assumes "\<And>c. c < C \<Longrightarrow> length (f c) = m" "2 \<le> m"
  shows "map_err tensor_mean (map f [0..<C]) = Inr (map mean (map f [0..<C]))"
    and "map_err tensor_std (map f [0..<C]) = Inr (map std (map f [0..<C]))"
proof -
  have "\<forall>x \<in> set (map f [0..<C]). length x = m" using assms(1) by auto
  then have "\<forall>x \<in> set (map f [0..<C]). tensor_mean x = Inr (mean x) \<and> tensor_std x = Inr (std x)"
    using assms(2) by (auto simp add: tensor_mean_def tensor_std_def)
  then show "map_err tensor_mean (map f [0..<C]) = Inr (map mean (map f [0..<C]))"
    and "map_err tensor_std (map f [0..<C]) = Inr (map std (map f [0..<C]))"
    by (intro map_err_Inr; simp)+
qed

lemma align_scale_channels:
  assumes stu: "wf_tensor stu" "shape stu = [N, C, H, W]"
    and tea: "wf_tensor tea" "shape tea = [N', C, H', W']"
    and C: "0 < C" and n: "2 \<le> N * (H * W)" and n': "2 \<le> N' * (H' * W')"
  shows "\<exists>out. align_scale stu tea = Inr out \<and> shape out = [N, C, H, W] \<and> wf_tensor out \<and>
           (\<forall>c < C. channel out c = aligned_channel stu tea c)"
proof -
  let ?rows = "map (aligned_channel stu tea) [0..<C]"
  let ?out = "Tensor [N, C, H, W]
     (concat (map (\<lambda>j. concat (map (\<lambda>i. slice ((i * N + j) * (H * W)) (H * W) (concat ?rows))
                                    [0..<C])) [0..<N]))"
  have ls: "length (channel stu c) = N * (H * W)" if "c < C" for c
    using length_channel[OF stu that] .
  have lt: "length (channel tea c) = N' * (H' * W')" if "c < C" for c
    using length_channel[OF tea that] .
  have ms: "map_err tensor_mean (map (channel stu) [0..<C]) =
            Inr (map mean (map (channel stu) [0..<C]))"
    by (rule stats_rows(1)[OF ls n])
  have ss: "map_err tensor_std (map (channel stu) [0..<C]) =
            Inr (map std (map (channel stu) [0..<C]))"
    by (rule stats_rows(2)[OF ls n])
  have mt: "map_err tensor_mean (map (channel tea) [0..<C]) =
            Inr (map mean (map (channel tea) [0..<C]))"
    by (rule stats_rows(1)[OF lt n'])
  have st: "map_err tensor_std (map (channel tea) [0..<C]) =
            Inr (map std (map (channel tea) [0..<C]))"
    by (rule stats_rows(2)[OF lt n'])
  have rows: "map (\<lambda>c. map (\<lambda>x. x * map std (map (channel tea) [0..<C]) ! c +
                                  map mean (map (channel tea) [0..<C]) ! c)
                 (map (\<lambda>c. map (\<lambda>x. (x - map mean (map (channel stu) [0..<C]) ! c) /
                                      (map std (map (channel stu) [0..<C]) ! c + 1 / 1000000))
                                (map (channel stu) [0..<C] ! c)) [0..<C] ! c)) [0..<C] = ?rows"
    by (rule map_cong) (simp_all add: aligned_channel_def comp_def)
  have fin: "permute1023 (Tensor [C, N, H, W] (concat ?rows)) = Inr ?out"
    by (simp add: permute1023_def)
  have eq: "align_scale stu tea = Inr ?out"
    unfolding align_scale_def
    by (simp add: stu(2) permute1023_channels[OF stu(2)] permute1023_channels[OF tea(2)]
        reshape_rows_channels[OF stu C] reshape_rows_channels[OF tea C]
        bind_err_def ms ss mt st Let_def rows fin del: map_map)
  have urows: "\<forall>x \<in> set ?rows. length x = N * (H * W)"
    using ls by (auto simp add: aligned_channel_def)
  have ch: "channel ?out c = aligned_channel stu tea c" if "c < C" for c
    using channel_of_rows[OF urows _ that] that by simp
  have lenX: "length (concat ?rows) = C * (N * (H * W))"
    using length_concat_uniform[OF urows] by simp
  have "\<forall>x \<in> set (map (channel ?out) [0..<C]). length x = N * (H * W)"
    using ch urows by auto
  have wf: "wf_tensor ?out"
  proof -
    have blk: "length (slice ((i * N + j) * (H * W)) (H * W) (concat ?rows)) = H * W"
      if "i < C" "j < N" for i j
      using block_bound[OF that, of "H * W"] lenX by (intro length_slice) simp
    have "\<forall>x \<in> set (map (\<lambda>i. slice ((i * N + j) * (H * W)) (H * W) (concat ?rows)) [0..<C]).
            length x = H * W" if "j < N" for j
      using blk that by auto
    from length_concat_uniform[OF this]
    have "\<forall>x \<in> set (map (\<lambda>j. concat (map (\<lambda>i. slice ((i * N + j) * (H * W)) (H * W)
              (concat ?rows)) [0..<C])) [0..<N]). length x = C * (H * W)"
      by auto
    from length_concat_uniform[OF this] show ?thesis
      by (simp add: wf_tensor_def)
  qed
  from eq ch wf show ?thesis by (intro exI[of _ ?out]) simp
qed

section \<open>Statistics of the aligned features\<close>

text \<open>
  Claim C4, amended. For a student and a teacher feature map with the same number
  \<open>C > 0\<close> of channels and at least two elements per channel each, \<open>align_scale\<close>
  returns a tensor of the student's shape whose channel \<open>c\<close> has, in real arithmetic,
  the mean of the teacher's channel \<open>c\<close>, and as standard deviation the teacher's, times
  \<open>s / (s + 1e-6)\<close> where \<open>s\<close> is the standard deviation of the student's channel \<open>c\<close>.
\<close>

theorem align_scale_statistics:
  assumes "wf_tensor stu_feat" "shape stu_feat = [N, C, H, W]"
    and "wf_tensor tea_feat" "shape tea_feat = [N', C, H', W']"
    and "0 < C" "2 \<le> N * (H * W)" "2 \<le> N' * (H' * W')"
  shows "\<exists>out. align_scale stu_feat tea_feat = Inr out \<and> shape out = [N, C, H, W] \<and>
           wf_tensor out \<and>
           (\<forall>c < C. mean (channel out c) = mean (channel tea_feat c) \<and>
                    std (channel out c) =
                      std (channel tea_feat c) *
                        (std (channel stu_feat c) / (std (channel stu_feat c) + 1 / 1000000)))"
proof -
  from align_scale_channels[OF assms] obtain out where
    out: "align_scale stu_feat tea_feat = Inr out" "shape out = [N, C, H, W]" "wf_tensor out"
    and ch: "\<forall>c < C. channel out c = aligned_channel stu_feat tea_feat c"
    by blast
  have "mean (channel out c) = mean (channel tea_feat c) \<and>
        std (channel out c) =
          std (channel tea_feat c) *
            (std (channel stu_feat c) / (std (channel stu_feat c) + 1 / 1000000))"
    if c: "c < C" for c
  proof -
    have "length (channel stu_feat c) = N * (H * W)"
      using length_channel[OF assms(1,2) c] .
    with assms(6) have ne: "channel stu_feat c \<noteq> []" by auto
    from ch c have "channel out c = aligned_channel stu_feat tea_feat c" by simp
    then show ?thesis
      using mean_aligned_channel[OF ne, of tea_feat] std_aligned_channel[OF ne, of tea_feat]
      by simp
  qed
  with out show ?thesis by blast
qed

lemma ex_feat_channel: "channel (Tensor [3, 1, 1, 1] [a, b, c]) 0 = [a, b, c]"
  by (simp add: channel_def slice_def upt_3)

lemma ex_aligned_std: "std [1 / 1000001, 1, 2000001 / 1000001] = 1000000 / 1000001"
proof -
  have "std [1 / 1000001, 1, 2000001 / 1000001] = sqrt ((1000000 / 1000001)\<^sup>2)"
    by (simp add: std_def mean_def power2_eq_square)
  then show ?thesis by simp
qed

theorem align_scale_statistics_witness:
  "wf_tensor ex_feat \<and> shape ex_feat = [3, 1, 1, 1] \<and> (0::nat) < 1 \<and>
   (2::nat) \<le> 3 * (1 * 1) \<and>
   align_scale ex_feat ex_feat =
     Inr (Tensor [3, 1, 1, 1] [1 / 1000001, 1, 2000001 / 1000001]) \<and>
   mean (channel (Tensor [3, 1, 1, 1] [1 / 1000001, 1, 2000001 / 1000001]) 0) =
     mean (channel ex_feat 0) \<and>
   std (channel (Tensor [3, 1, 1, 1] [1 / 1000001, 1, 2000001 / 1000001]) 0) =
     std (channel ex_feat 0) * (std (channel ex_feat 0) / (std (channel ex_feat 0) + 1 / 1000000))"
proof -
  have h1: "wf_tensor ex_feat" by (simp add: wf_tensor_def ex_feat_def)
  have h2: "shape ex_feat = [3, 1, 1, 1]" by (simp add: ex_feat_def)
  have h3: "(0::nat) < 1" by simp
  have h4: "(2::nat) \<le> 3 * (1 * 1)" by simp
  from align_scale_statistics[OF h1 h2 h1 h2 h3 h4 h4] obtain out where
    "align_scale ex_feat ex_feat = Inr out"
    "\<forall>c < 1. mean (channel out c) = mean (channel ex_feat c) \<and>
        std (channel out c) =
          std (channel ex_feat c) * (std (channel ex_feat c) / (std (channel ex_feat c) + 1 / 1000000))"
    by blast
  then have "mean (channel (Tensor [3, 1, 1, 1] [1 / 1000001, 1, 2000001 / 1000001]) 0) =
     mean (channel ex_feat 0)"
   and "std (channel (Tensor [3, 1, 1, 1] [1 / 1000001, 1, 2000001 / 1000001]) 0) =
     std (channel ex_feat 0) * (std (channel ex_feat 0) / (std (channel ex_feat 0) + 1 / 1000000))"
    unfolding ex_align by simp_all
  with h1 h2 h3 h4 ex_align show ?thesis by (intro conjI)
qed

text \<open>
  The claim as stated fails on the deviation: a student and a teacher that are the same
  feature map, with the values 0, 1, 2 in their one channel, have deviation 1, and the
  aligned student has deviation \<open>1000000 / 1000001\<close>.
\<close>

theorem align_scale_std_counterexample:
  "align_scale ex_feat ex_feat =
     Inr (Tensor [3, 1, 1, 1] [1 / 1000001, 1, 2000001 / 1000001]) \<and>
   std (channel ex_feat 0) = 1 \<and>
   std (channel (Tensor [3, 1, 1, 1] [1 / 1000001, 1, 2000001 / 1000001]) 0) =
     1000000 / 1000001 \<and>
   std (channel (Tensor [3, 1, 1, 1] [1 / 1000001, 1, 2000001 / 1000001]) 0) \<noteq>
     std (channel ex_feat 0)"
proof -
  have a: "std (channel ex_feat 0) = 1"
    unfolding ex_feat_def ex_feat_channel by (rule std_012)
  have b: "std (channel (Tensor [3, 1, 1, 1] [1 / 1000001, 1, 2000001 / 1000001]) 0) =
     1000000 / 1000001"
    unfolding ex_feat_channel by (rule ex_aligned_std)
  have c: "std (channel (Tensor [3, 1, 1, 1] [1 / 1000001, 1, 2000001 / 1000001]) 0) \<noteq>
     std (channel ex_feat 0)"
    unfolding a b by simp
  from ex_align a b c show ?thesis by (intro conjI)
qed

section \<open>Rows of scores, one per location\<close>

lemma nth_concat_uniform:
  assumes "\<forall>x \<in> set xss. length x = k" "j < length xss" "i < k"
  shows "concat xss ! (j * k + i) = xss ! j ! i"
proof -
  have "xss ! j ! i = take k (drop (j * k) (concat xss)) ! i"
    using slice_concat_uniform[OF assms(1,2)] by (simp add: slice_def)
  also have "\<dots> = drop (j * k) (concat xss) ! i" using assms(3) by simp
  also have "\<dots> = concat xss ! (j * k + i)"
  proof (rule nth_drop)
    have "length (concat xss) = length xss * k" by (rule length_concat_uniform[OF assms(1)])
    moreover have "j * k \<le> length xss * k" using assms(2) by (intro mult_le_mono1) simp
    ultimately show "j * k \<le> length (concat xss)" by simp
  qed
  finally show ?thesis by simp
qed

lemma concat_map_concat: "concat (map concat xsss) = concat (concat xsss)"
  by (induction xsss) simp_all

lemma permute0231_rows:
  assumes "shape t = [n, k, h, w]" "0 < k"
  shows "permute_reshape k t =
     Inr (concat (map (\<lambda>i. concat (map (\<lambda>y. map (\<lambda>x.
            map (\<lambda>c. data t ! (((i * k + c) * h + y) * w + x)) [0..<k])
            [0..<w]) [0..<h])) [0..<n]))"
proof -
  let ?row = "\<lambda>i y x. map (\<lambda>c. data t ! (((i * k + c) * h + y) * w + x)) [0..<k]"
  let ?plane = "\<lambda>i. concat (map (\<lambda>y. map (?row i y) [0..<w]) [0..<h])"
  let ?rows = "concat (map ?plane [0..<n])"
  have flat: "concat (map (\<lambda>i. concat (map (\<lambda>y. concat (map (?row i y) [0..<w])) [0..<h]))
                [0..<n]) = concat ?rows"
  proof -
    have "concat (map (\<lambda>y. concat (map (?row i y) [0..<w])) [0..<h]) = concat (?plane i)" for i
      using concat_map_concat[of "map (\<lambda>y. map (?row i y) [0..<w]) [0..<h]"]
      by (simp add: comp_def)
    then show ?thesis
      using concat_map_concat[of "map ?plane [0..<n]"] by (simp add: comp_def)
  qed
  have u: "\<forall>r \<in> set ?rows. length r = k" by auto
  have len: "length (concat ?rows) = length ?rows * k"
    by (rule length_concat_uniform[OF u])
  have "reshape_cols k (concat ?rows) = Inr ?rows"
    using assms(2) rows2d_concat[OF u] by (simp add: reshape_cols_def len)
  then show ?thesis
    by (simp add: permute_reshape_def permute0231_def assms(1) bind_err_def flat)
qed

lemma length_location_rows:
  "length (concat (map (\<lambda>i. concat (map (\<lambda>y. map (f i y) [0..<w]) [0..<h])) [0..<n])) =
     n * (h * w)"
proof -
  have "\<forall>p \<in> set (map (\<lambda>y. map (f i y) [0..<w]) [0..<h]). length p = w" for i by auto
  from length_concat_uniform[OF this]
  have "\<forall>p \<in> set (map (\<lambda>i. concat (map (\<lambda>y. map (f i y) [0..<w]) [0..<h])) [0..<n]).
          length p = h * w" by auto
  from length_concat_uniform[OF this] show ?thesis by simp
qed

lemma nth_location_rows:
  assumes "i < n" "y < h" "x < w"
  shows "concat (map (\<lambda>i. concat (map (\<lambda>y. map (f i y) [0..<w]) [0..<h])) [0..<n]) !
           ((i * h + y) * w + x) = f i y x"
proof -
  let ?line = "\<lambda>i y. map (f i y) [0..<w]"
  let ?plane = "\<lambda>i. concat (map (?line i) [0..<h])"
  have ul: "\<forall>p \<in> set (map (?line i) [0..<h]). length p = w" for i by auto
  have up: "\<forall>p \<in> set (map ?plane [0..<n]). length p = h * w"
    using length_concat_uniform[OF ul] by auto
  have "Suc y * w \<le> h * w" using assms(2) by (intro mult_le_mono1) simp
  then have b: "y * w + x < h * w" using assms(3) by simp
  have "(i * h + y) * w + x = i * (h * w) + (y * w + x)" by (simp add: algebra_simps)
  then have "concat (map ?plane [0..<n]) ! ((i * h + y) * w + x) =
             concat (map ?plane [0..<n]) ! (i * (h * w) + (y * w + x))" by (rule arg_cong)
  also have "\<dots> = map ?plane [0..<n] ! i ! (y * w + x)"
    using assms(1) b by (intro nth_concat_uniform[OF up]) simp_all
  also have "\<dots> = ?plane i ! (y * w + x)" using assms(1) by simp
  also have "\<dots> = map (?line i) [0..<h] ! y ! x"
    using assms(2,3) by (intro nth_concat_uniform[OF ul]) simp_all
  also have "\<dots> = f i y x" using assms(2,3) by simp
  finally show ?thesis .
qed

section \<open>The weights of the regression distillation loss\<close>

lemma kd_reg_weights_Inr:
  assumes "kd_reg_weights scores lw = Inr w"
  shows "length w = length scores" "length lw = length scores"
    and "j < length scores \<Longrightarrow>
         w ! j = (if lw ! j = 0 then 0 else sigmoid (Max (set (scores ! j))))"
  using assms by (auto simp add: kd_reg_weights_def Let_def split: if_splits)

lemma expand4_nth:
  assumes "j < length w" "s < 4"
  shows "expand4 w ! (4 * j + s) = w ! j"
proof -
  have u: "\<forall>r \<in> set (map (replicate 4) w). length r = 4" by auto
  have "concat (map (replicate 4) w) ! (j * 4 + s) = map (replicate 4) w ! j ! s"
    using assms by (intro nth_concat_uniform[OF u]) simp_all
  then show ?thesis using assms by (simp add: expand4_def mult.commute)
qed

lemma length_expand4: "length (expand4 w) = 4 * length w"
  by (induction w) (simp_all add: expand4_def)

lemma bind_err_Inr:
  "bind_err m f = Inr r \<Longrightarrow> \<exists>v. m = Inr v \<and> f v = Inr r"
  by (cases m) (simp_all add: bind_err_def)

lemma permute_reshape_positive:
  "permute_reshape k t = Inr rows \<Longrightarrow> 0 < k"
  by (auto simp add: permute_reshape_def reshape_cols_def dest!: bind_err_Inr split: if_splits)

lemma pred_mimicking_loss_single_Inr:
  assumes "pred_mimicking_loss_single self tea_cls_score tea_bbox_pred reused_cls_score
             reused_bbox_pred label_weights avg_factor = Inr (l_cls, l_reg, factor)"
  shows "\<exists>scores reused_scores tea_rows reused_rows w.
     permute_reshape (cls_out_channels (bbox_head self)) tea_cls_score = Inr scores \<and>
     permute_reshape (cls_out_channels (bbox_head self)) reused_cls_score = Inr reused_scores \<and>
     permute_reshape (reg_max (bbox_head self) + 1) tea_bbox_pred = Inr tea_rows \<and>
     permute_reshape (reg_max (bbox_head self) + 1) reused_bbox_pred = Inr reused_rows \<and>
     kd_reg_weights scores (data label_weights) = Inr w \<and>
     l_cls = loss_cls_kd self reused_scores scores (data label_weights) avg_factor \<and>
     l_reg = loss_reg_kd self reused_rows tea_rows (expand4 w) 4 \<and>
     factor = sum_list w"
proof -
  from assms obtain scores where 1:
    "permute_reshape (cls_out_channels (bbox_head self)) tea_cls_score = Inr scores"
    and r1: "bind_err (permute_reshape (cls_out_channels (bbox_head self)) reused_cls_score)
       (\<lambda>reused_cls_score.
     let label_weights = data label_weights;
         loss_cls_kd = loss_cls_kd self reused_cls_score scores label_weights avg_factor;
         reg_max = reg_max (bbox_head self)
     in
     bind_err (permute_reshape (reg_max + 1) tea_bbox_pred) (\<lambda>tea_bbox_pred.
     bind_err (permute_reshape (reg_max + 1) reused_bbox_pred) (\<lambda>reused_bbox_pred.
     bind_err (kd_reg_weights scores label_weights) (\<lambda>reg_weights.
     let loss_reg_kd = loss_reg_kd self reused_bbox_pred tea_bbox_pred (expand4 reg_weights) 4
     in Inr (loss_cls_kd, loss_reg_kd, sum_list reg_weights))))) = Inr (l_cls, l_reg, factor)"
    unfolding pred_mimicking_loss_single_def by (blast dest: bind_err_Inr)
  from bind_err_Inr[OF r1] obtain reused_scores where 2:
    "permute_reshape (cls_out_channels (bbox_head self)) reused_cls_score = Inr reused_scores"
    and r2: "bind_err (permute_reshape (reg_max (bbox_head self) + 1) tea_bbox_pred)
       (\<lambda>tea_bbox_pred.
     bind_err (permute_reshape (reg_max (bbox_head self) + 1) reused_bbox_pred)
       (\<lambda>reused_bbox_pred.
     bind_err (kd_reg_weights scores (data label_weights)) (\<lambda>reg_weights.
       Inr (loss_cls_kd self reused_scores scores (data label_weights) avg_factor,
            loss_reg_kd self reused_bbox_pred tea_bbox_pred (expand4 reg_weights) 4,
            sum_list reg_weights)))) = Inr (l_cls, l_reg, factor)"
    by (auto simp add: Let_def)
  from bind_err_Inr[OF r2] obtain tea_rows where 3:
    "permute_reshape (reg_max (bbox_head self) + 1) tea_bbox_pred = Inr tea_rows"
    and r3: "bind_err (permute_reshape (reg_max (bbox_head self) + 1) reused_bbox_pred)
       (\<lambda>reused_bbox_pred.
     bind_err (kd_reg_weights scores (data label_weights)) (\<lambda>reg_weights.
       Inr (loss_cls_kd self reused_scores scores (data label_weights) avg_factor,
            loss_reg_kd self reused_bbox_pred tea_rows (expand4 reg_weights) 4,
            sum_list reg_weights))) = Inr (l_cls, l_reg, factor)"
    by auto
  from bind_err_Inr[OF r3] obtain reused_rows where 4:
    "permute_reshape (reg_max (bbox_head self) + 1) reused_bbox_pred = Inr reused_rows"
    and r4: "bind_err (kd_reg_weights scores (data label_weights)) (\<lambda>reg_weights.
       Inr (loss_cls_kd self reused_scores scores (data label_weights) avg_factor,
            loss_reg_kd self reused_rows tea_rows (expand4 reg_weights) 4,
            sum_list reg_weights)) = Inr (l_cls, l_reg, factor)"
    by auto
  from bind_err_Inr[OF r4] obtain w where 5:
    "kd_reg_weights scores (data label_weights) = Inr w"
    and r5: "l_cls = loss_cls_kd self reused_scores scores (data label_weights) avg_factor"
      "l_reg = loss_reg_kd self reused_rows tea_rows (expand4 w) 4" "factor = sum_list w"
    by auto
  from 1 2 3 4 5 r5 show ?thesis by blast
qed

text \<open>
  Claim C5. When \<open>pred_mimicking_loss_single\<close> returns, the weight of a location (a row
  \<open>j\<close> of the teacher's scores) is 0 where the label weight of the location is 0 and the
  sigmoid of the largest score of the row elsewhere; the weight vector handed to the
  regression distillation loss repeats each of them 4 times, once per box side; and the
  third result is the sum of the weights of the locations. For teacher scores of shape
  \<open>(n, K, h, wd)\<close> with \<open>K = cls_out_channels\<close>, row \<open>(i * h + y) * wd + x\<close> holds the \<open>K\<close>
  scores of image \<open>i\<close> at the location \<open>(y, x)\<close>.
\<close>

theorem kd_regression_weights:
  assumes "pred_mimicking_loss_single self tea_cls_score tea_bbox_pred reused_cls_score
             reused_bbox_pred label_weights avg_factor = Inr (l_cls, l_reg, factor)"
  shows "\<exists>scores tea_rows reused_rows w.
     permute_reshape (cls_out_channels (bbox_head self)) tea_cls_score = Inr scores \<and>
     permute_reshape (reg_max (bbox_head self) + 1) tea_bbox_pred = Inr tea_rows \<and>
     permute_reshape (reg_max (bbox_head self) + 1) reused_bbox_pred = Inr reused_rows \<and>
     length w = length scores \<and> length (data label_weights) = length scores \<and>
     (\<forall>j < length scores.
        w ! j = (if data label_weights ! j = 0 then 0 else sigmoid (Max (set (scores ! j)))) \<and>
        (\<forall>s < 4. expand4 w ! (4 * j + s) = w ! j)) \<and>
     length (expand4 w) = 4 * length scores \<and>
     l_reg = loss_reg_kd self reused_rows tea_rows (expand4 w) 4 \<and>
     factor = sum_list w \<and>
     (\<forall>n h wd. shape tea_cls_score = [n, cls_out_channels (bbox_head self), h, wd] \<longrightarrow>
        length scores = n * (h * wd) \<and>
        (\<forall>i < n. \<forall>y < h. \<forall>x < wd.
           scores ! ((i * h + y) * wd + x) =
             map (\<lambda>c. data tea_cls_score !
                          (((i * cls_out_channels (bbox_head self) + c) * h + y) * wd + x))
                 [0..<cls_out_channels (bbox_head self)]))"
proof -
  from pred_mimicking_loss_single_Inr[OF assms] obtain scores reused_scores tea_rows reused_rows w
    where s: "permute_reshape (cls_out_channels (bbox_head self)) tea_cls_score = Inr scores"
      and t: "permute_reshape (reg_max (bbox_head self) + 1) tea_bbox_pred = Inr tea_rows"
      and r: "permute_reshape (reg_max (bbox_head self) + 1) reused_bbox_pred = Inr reused_rows"
      and w: "kd_reg_weights scores (data label_weights) = Inr w"
      and l: "l_reg = loss_reg_kd self reused_rows tea_rows (expand4 w) 4" "factor = sum_list w"
    by blast
  note kw = kd_reg_weights_Inr[OF w]
  have per: "w ! j = (if data label_weights ! j = 0 then 0 else sigmoid (Max (set (scores ! j)))) \<and>
        (\<forall>s < 4. expand4 w ! (4 * j + s) = w ! j)" if "j < length scores" for j
    using kw(3)[OF that] expand4_nth[of j w] that kw(1) by simp
  have loc: "length scores = n * (h * wd) \<and>
        (\<forall>i < n. \<forall>y < h. \<forall>x < wd.
           scores ! ((i * h + y) * wd + x) =
             map (\<lambda>c. data tea_cls_score !
                          (((i * cls_out_channels (bbox_head self) + c) * h + y) * wd + x))
                 [0..<cls_out_channels (bbox_head self)])"
    if sh: "shape tea_cls_score = [n, cls_out_channels (bbox_head self), h, wd]" for n h wd
  proof -
    let ?f = "\<lambda>i y x. map (\<lambda>c. data tea_cls_score !
                         (((i * cls_out_channels (bbox_head self) + c) * h + y) * wd + x))
                [0..<cls_out_channels (bbox_head self)]"
    from permute0231_rows[OF sh permute_reshape_positive[OF s]] s
    have eq: "scores = concat (map (\<lambda>i. concat (map (\<lambda>y. map (?f i y) [0..<wd]) [0..<h]))
                                [0..<n])" by simp
    have "length scores = n * (h * wd)"
      unfolding eq by (rule length_location_rows)
    moreover have "scores ! ((i * h + y) * wd + x) = ?f i y x"
      if "i < n" "y < h" "x < wd" for i y x
      unfolding eq using that by (rule nth_location_rows)
    ultimately show ?thesis by blast
  qed
  from s t r kw(1,2) per l loc length_expand4[of w] show ?thesis
    by (intro exI[of _ scores] exI[of _ tea_rows] exI[of _ reused_rows] exI[of _ w]) simp
qed

text \<open>
  One image, two classes, three locations in a row: the class scores are \<open>(0, -3)\<close>,
  \<open>(-1, 0)\<close> and \<open>(-2, -5)\<close>, and the third location has label weight 0.
\<close>

lemma upt_lits:
  "[0..<Suc 0] = [0]" "[0..<2] = [0, 1]" "[0..<3] = [0, 1, 2]" "[0..<4] = [0, 1, 2, 3]"
  "[0..<12] = [0, 1, 2, 3, 4, 5, 6, 7, 8, 9, 10, 11]"
  by (simp_all add: upt_rec)

lemma ex_scores_rows:
  "permute_reshape 2 (Tensor [1, 2, 1, 3] [0, -1, -2, -3, 0, -5]) =
     Inr [[0, -3], [-1, 0], [-2, -5]]"
  by (simp add: permute_reshape_def permute0231_def reshape_cols_def rows2d_def slice_def
      bind_err_def upt_lits)

lemma ex_bbox_rows:
  "permute_reshape (Suc 0) (Tensor [1, 4, 1, 3] [0, 0, 0, 0, 0, 0, 0, 0, 0, 0, 0, 0]) =
     Inr [[0], [0], [0], [0], [0], [0], [0], [0], [0], [0], [0], [0]]"
  by (simp add: permute_reshape_def permute0231_def reshape_cols_def rows2d_def slice_def
      bind_err_def upt_lits)

lemma sigmoid_0: "sigmoid 0 = 1 / 2"
  by (simp add: sigmoid_def)

lemma ex_pred_mimicking:
  "pred_mimicking_loss_single (ex_detector\<lparr>bbox_head := ex_head\<lparr>cls_out_channels := 2\<rparr>\<rparr>)
     (Tensor [1, 2, 1, 3] [0, -1, -2, -3, 0, -5])
     (Tensor [1, 4, 1, 3] [0, 0, 0, 0, 0, 0, 0, 0, 0, 0, 0, 0])
     (Tensor [1, 2, 1, 3] [0, -1, -2, -3, 0, -5])
     (Tensor [1, 4, 1, 3] [0, 0, 0, 0, 0, 0, 0, 0, 0, 0, 0, 0])
     (Tensor [3] [1, 1, 0]) 2 = Inr (5, 1, 1)"
proof -
  let ?D = "ex_detector\<lparr>bbox_head := ex_head\<lparr>cls_out_channels := 2\<rparr>\<rparr>"
  have k: "cls_out_channels (bbox_head ?D) = 2" "reg_max ex_head = 0"
    by (simp_all add: ex_head_def)
  have w: "kd_reg_weights [[0, -3], [-1, 0], [-2, -5]] [1, 1, 0] = Inr [1 / 2, 1 / 2, 0]"
    by (simp add: kd_reg_weights_def sigmoid_0)
  have l: "loss_cls_kd ex_detector a b c d = 5"
    "loss_reg_kd ex_detector a b (expand4 [1 / 2, 1 / 2, 0]) 4 = 1"
    for a b c d
    by (simp_all add: ex_detector_def expand4_def replicate_4)
  show ?thesis
    unfolding pred_mimicking_loss_single_def k
    by (simp add: bind_err_def w l k Let_def ex_scores_rows[unfolded One_nat_def]
        ex_bbox_rows[unfolded One_nat_def])
qed

theorem kd_regression_weights_witness:
  "pred_mimicking_loss_single (ex_detector\<lparr>bbox_head := ex_head\<lparr>cls_out_channels := 2\<rparr>\<rparr>)
     (Tensor [1, 2, 1, 3] [0, -1, -2, -3, 0, -5])
     (Tensor [1, 4, 1, 3] [0, 0, 0, 0, 0, 0, 0, 0, 0, 0, 0, 0])
     (Tensor [1, 2, 1, 3] [0, -1, -2, -3, 0, -5])
     (Tensor [1, 4, 1, 3] [0, 0, 0, 0, 0, 0, 0, 0, 0, 0, 0, 0])
     (Tensor [3] [1, 1, 0]) 2 = Inr (5, 1, 1) \<and>
   (\<exists>w. length w = 3 \<and> w ! 0 = sigmoid (Max {0, -3}) \<and> w ! 1 = sigmoid (Max {-1, 0}) \<and>
        w ! 2 = 0 \<and> expand4 w ! 7 = w ! 1 \<and> length (expand4 w) = 12 \<and> sum_list w = 1)"
proof -
  let ?D = "ex_detector\<lparr>bbox_head := ex_head\<lparr>cls_out_channels := 2\<rparr>\<rparr>"
  have k: "cls_out_channels (bbox_head ?D) = 2" by (simp add: ex_head_def)
  from kd_regression_weights[OF ex_pred_mimicking] obtain scores w where
    s: "permute_reshape (cls_out_channels (bbox_head ?D))
          (Tensor [1, 2, 1, 3] [0, -1, -2, -3, 0, -5]) = Inr scores"
    and l: "length w = length scores"
    and w: "\<forall>j < length scores.
        w ! j = (if data (Tensor [3] [1, 1, 0]) ! j = 0 then 0
                 else sigmoid (Max (set (scores ! j)))) \<and>
        (\<forall>s < 4. expand4 w ! (4 * j + s) = w ! j)"
    and e: "length (expand4 w) = 4 * length scores"
    and f: "(1::real) = sum_list w"
    by (elim exE conjE) (rule that)
  from s have sc: "scores = [[0, -3], [-1, 0], [-2, -5]]"
    unfolding k ex_scores_rows by simp
  have w0: "w ! 0 = sigmoid (Max {0, -3})" using w[rule_format, of 0] by (simp add: sc)
  have w1: "w ! 1 = sigmoid (Max {-1, 0})" using w[rule_format, of 1] by (simp add: sc)
  have w2: "w ! 2 = 0" using w[rule_format, of 2] by (simp add: sc)
  have "1 < length scores" by (simp add: sc)
  from w[rule_format, OF this, THEN conjunct2, rule_format, of 3]
  have w7: "expand4 w ! 7 = w ! 1" by simp
  from l e have l3: "length w = 3" and l12: "length (expand4 w) = 12" by (simp_all add: sc)
  from w0 w1 w2 w7 l3 l12 f have
    "\<exists>w. length w = 3 \<and> w ! 0 = sigmoid (Max {0, -3}) \<and> w ! 1 = sigmoid (Max {-1, 0}) \<and>
        w ! 2 = 0 \<and> expand4 w ! 7 = w ! 1 \<and> length (expand4 w) = 12 \<and> sum_list w = 1"
    by (intro exI[of _ w]) simp
  with ex_pred_mimicking show ?thesis by (intro conjI)
qed

section \<open>The loss dictionary, unfolded\<close>

lemma unpack4_Inr:
  "unpack4 rs = Inr (a, b, c, d) \<Longrightarrow>
   rs \<noteq> [] \<and> a = map fst rs \<and> b = map (\<lambda>r. fst (snd r)) rs \<and>
   c = map (\<lambda>r. fst (snd (snd r))) rs \<and> d = map (\<lambda>r. snd (snd (snd r))) rs"
  by (auto simp add: unpack4_def split: if_splits)

lemma unpack3_Inr:
  "unpack3 rs = Inr (a, b, c) \<Longrightarrow>
   rs \<noteq> [] \<and> a = map fst rs \<and> b = map (\<lambda>r. fst (snd r)) rs \<and> c = map (\<lambda>r. snd (snd r)) rs"
  by (auto simp add: unpack3_def split: if_splits)

lemma unpack2_Inr:
  "unpack2 rs = Inr (a, b) \<Longrightarrow> rs \<noteq> [] \<and> a = map fst rs \<and> b = map snd rs"
  by (auto simp add: unpack2_def split: if_splits)

lemma loss_by_feat_unfold:
  assumes t: "cls_reg_targets self cls_scores batch_gt_instances batch_img_metas
                batch_gt_instances_ignore =
              (anchor_list, labels_list, label_weights_list, bbox_targets_list,
               bbox_weights_list, avg_factor)"
  shows "loss_by_feat U self tea_cls_scores tea_bbox_preds tea_feats cls_scores bbox_preds feats
           reused_cls_scores reused_bbox_preds batch_gt_instances batch_img_metas
           batch_gt_instances_ignore =
     (if length cls_scores \<noteq> num_levels (bbox_head self) then Inl AssertionError
      else if cls_scores = [] then Inl IndexError
      else
        let det = det_levels self anchor_list cls_scores bbox_preds labels_list
                    label_weights_list bbox_targets_list (reduce_mean U avg_factor)
        in if det = [] then Inl ValueError
        else
          bind_err (kd_levels self tea_cls_scores tea_bbox_preds reused_cls_scores
                      reused_bbox_preds label_weights_list (reduce_mean U avg_factor)) (\<lambda>kd.
          if kd = [] then Inl ValueError
          else if sum_list (map (\<lambda>r. snd (snd r)) kd) = 0 then Inl NonFinite
          else Inr (loss_dict self det
                      (max 1 (reduce_mean U (sum_list (map (\<lambda>r. snd (snd (snd r))) det))))
                      kd (sum_list (map (\<lambda>r. snd (snd r)) kd)) feats tea_feats)))"
proof -
  obtain al vf where ga: "get_anchors (bbox_head self)
      (map (\<lambda>featmap. drop (length (shape featmap) - 2) (shape featmap)) cls_scores)
      batch_img_metas = (al, vf)" by (cases "get_anchors (bbox_head self)
      (map (\<lambda>featmap. drop (length (shape featmap) - 2) (shape featmap)) cls_scores)
      batch_img_metas")
  from t have gt: "get_targets (bbox_head self) al vf batch_gt_instances batch_img_metas
      batch_gt_instances_ignore =
     (anchor_list, labels_list, label_weights_list, bbox_targets_list,
               bbox_weights_list, avg_factor)"
    by (simp add: cls_reg_targets_def ga Let_def)
  show ?thesis
    unfolding loss_by_feat_def
    by (simp add: ga gt Let_def bind_err_def unpack4_def unpack3_def loss_dict_def
        split: sum.splits)
qed




section \<open>The small detector, evaluated\<close>

lemma ex_fields:
  "bbox_head (ex_detector\<lparr>with_feat_distill := b\<rparr>) = ex_head"
  "teacher (ex_detector\<lparr>with_feat_distill := b\<rparr>) = ex_teacher"
  "bbox_head ex_teacher = ex_head"
  "with_feat_distill (ex_detector\<lparr>with_feat_distill := b\<rparr>) = b"
  "loss_cls_kd (ex_detector\<lparr>with_feat_distill := b\<rparr>) p t w a = 5"
  "loss_reg_kd (ex_detector\<lparr>with_feat_distill := b\<rparr>) p t w a = sum_list w / a"
  "loss_feat_kd (ex_detector\<lparr>with_feat_distill := b\<rparr>) f g = 7"
  "extract_feat (ex_detector\<lparr>with_feat_distill := b\<rparr>) ex_feat = [Tensor [3, 1, 1, 1] [1, 2, 3]]"
  "extract_feat ex_teacher ex_feat = [Tensor [3, 1, 1, 1] [1, 2, 3]]"
  "reused_teacher_head_idx (ex_detector\<lparr>with_feat_distill := b\<rparr>) = 1"
  by (simp_all add: ex_detector_def ex_teacher_def ex_feat_def)

lemma ex_head_fields:
  "cls_out_channels ex_head = Suc 0" "reg_max ex_head = 0" "num_levels ex_head = Suc 0"
  "strides ex_head = [(8, 8)]" "scales ex_head = [\<lambda>t. t]"
  "get_anchors ex_head sizes metas = ((), ())"
  "get_targets ex_head an fl gts metas ign = ([()], [()], [Tensor [3] [1, 0, 1]], [()], [()], 2)"
  "loss_by_feat_single ex_head an cs bp la lw bt st avg = (1, 2, 3, 4)"
  by (simp_all add: ex_head_def)

lemma ex_utils_fields:
  "reduce_mean ex_utils v = v" "unpack_gt_instances ex_utils samples = ([], [], [])"
  by (simp_all add: ex_utils_def)

lemma ex_cls_rows:
  "permute_reshape (Suc 0) (Tensor [3, 1, 1, 1] [a, b, c]) = Inr [[a], [b], [c]]"
  by (simp add: permute_reshape_def permute0231_def reshape_cols_def rows2d_def slice_def
      bind_err_def upt_lits)

lemma ex_reg_rows:
  "permute_reshape (Suc 0)
     (Tensor [3, 4, 1, 1] [b0, b1, b2, b3, b4, b5, b6, b7, b8, b9, b10, b11]) =
   Inr [[b0], [b1], [b2], [b3], [b4], [b5], [b6], [b7], [b8], [b9], [b10], [b11]]"
  by (simp add: permute_reshape_def permute0231_def reshape_cols_def rows2d_def slice_def
      bind_err_def upt_lits)

lemma ex_weights:
  "kd_reg_weights [[0], [0], [0]] [1, 0, 1] = Inr [1 / 2, 0, 1 / 2]"
  by (simp add: kd_reg_weights_def sigmoid_0)

lemma ex_pred_level:
  "pred_mimicking_loss_single (ex_detector\<lparr>with_feat_distill := fd\<rparr>)
     (Tensor [3, 1, 1, 1] [0, 0, 0])
     (Tensor [3, 4, 1, 1] [b0, b1, b2, b3, b4, b5, b6, b7, b8, b9, b10, b11])
     (Tensor [3, 1, 1, 1] [a, b, c])
     (Tensor [3, 4, 1, 1] [r0, r1, r2, r3, r4, r5, r6, r7, r8, r9, r10, r11])
     (Tensor [3] [1, 0, 1]) avg = Inr (5, 1, 1)"
  unfolding pred_mimicking_loss_single_def ex_fields ex_head_fields
  by (simp add: bind_err_def Let_def ex_cls_rows[unfolded One_nat_def]
      ex_reg_rows[unfolded One_nat_def] ex_weights expand4_def replicate_4)

lemma ex_kd_levels:
  "kd_levels (ex_detector\<lparr>with_feat_distill := fd\<rparr>)
     [Tensor [3, 1, 1, 1] [0, 0, 0]]
     [Tensor [3, 4, 1, 1] [b0, b1, b2, b3, b4, b5, b6, b7, b8, b9, b10, b11]]
     [Tensor [3, 1, 1, 1] [a, b, c]]
     [Tensor [3, 4, 1, 1] [r0, r1, r2, r3, r4, r5, r6, r7, r8, r9, r10, r11]]
     [Tensor [3] [1, 0, 1]] avg = Inr [(5, 1, 1)]"
  by (simp add: kd_levels_def upt_lits ex_pred_level[unfolded One_nat_def] bind_err_def)

lemma ex_targets:
  "cls_reg_targets (ex_detector\<lparr>with_feat_distill := fd\<rparr>) cs gts metas ign =
     ([()], [()], [Tensor [3] [1, 0, 1]], [()], [()], 2)"
  unfolding cls_reg_targets_def ex_fields ex_head_fields by (simp add: Let_def)

lemma ex_det_levels:
  "det_levels (ex_detector\<lparr>with_feat_distill := fd\<rparr>) [()] [s] [p] [()]
     [Tensor [3] [1, 0, 1]] [()] avg = [(1, 2, 3, 4)]"
  unfolding det_levels_def ex_fields ex_head_fields by (simp add: upt_lits)

lemma ex_loss_by_feat:
  "loss_by_feat ex_utils (ex_detector\<lparr>with_feat_distill := fd\<rparr>)
     [Tensor [3, 1, 1, 1] [0, 0, 0]]
     [Tensor [3, 4, 1, 1] [b0, b1, b2, b3, b4, b5, b6, b7, b8, b9, b10, b11]]
     [tea_feat] [s] [p] [feat]
     [Tensor [3, 1, 1, 1] [a, b, c]]
     [Tensor [3, 4, 1, 1] [r0, r1, r2, r3, r4, r5, r6, r7, r8, r9, r10, r11]]
     gts metas ign =
   Inr (loss_dict (ex_detector\<lparr>with_feat_distill := fd\<rparr>) [(1, 2, 3, 4)] 4 [(5, 1, 1)] 1
          [feat] [tea_feat])"
  unfolding loss_by_feat_unfold[OF ex_targets] ex_utils_fields ex_det_levels ex_kd_levels
    ex_fields ex_head_fields
  by (simp add: bind_err_def)

lemma ex_loss_dict:
  "loss_dict (ex_detector\<lparr>with_feat_distill := fd\<rparr>) [(1, 2, 3, 4)] 4 [(5, 1, 1)] 1
     [feat] [tea_feat] =
   (if fd
    then [''loss_cls'' \<mapsto> [1], ''loss_bbox'' \<mapsto> [1 / 2], ''loss_dfl'' \<mapsto> [3 / 4],
          ''loss_cls_kd'' \<mapsto> [5], ''loss_reg_kd'' \<mapsto> [1], ''loss_feat_kd'' \<mapsto> [7]]
    else [''loss_cls'' \<mapsto> [1], ''loss_bbox'' \<mapsto> [1 / 2], ''loss_dfl'' \<mapsto> [3 / 4],
          ''loss_cls_kd'' \<mapsto> [5], ''loss_reg_kd'' \<mapsto> [1]])"
  unfolding loss_dict_def ex_fields by simp

lemma map_err_cong:
  "(\<And>x. x \<in> set xs \<Longrightarrow> f x = g x) \<Longrightarrow> map_err f xs = map_err g xs"
  by (induction xs) simp_all

lemma loss_unfold:
  "loss U self batch_inputs batch_data_samples =
     (let tea = teacher_outputs self batch_inputs;
          stu = student_outputs self batch_inputs
      in if tea = [] then Inl ValueError
         else if stu = [] then Inl ValueError
         else bind_err (reused_outputs self batch_inputs) (\<lambda>reused.
           if reused = [] then Inl ValueError
           else loss_by_feat U self (map fst tea) (map (\<lambda>r. fst (snd r)) tea)
                  (extract_feat (teacher self) batch_inputs)
                  (map fst stu) (map (\<lambda>r. fst (snd r)) stu)
                  (extract_feat self batch_inputs)
                  (map fst reused) (map snd reused)
                  (fst (unpack_gt_instances U batch_data_samples))
                  (snd (snd (unpack_gt_instances U batch_data_samples)))
                  (fst (snd (unpack_gt_instances U batch_data_samples)))))"
proof -
  let ?tea = "teacher_outputs self batch_inputs"
  let ?stu = "student_outputs self batch_inputs"
  let ?sc = "scales (bbox_head (teacher self))"
  let ?m = "Min {length ?tea, length ?stu, length ?sc}"
  have m: "Min {length (map (\<lambda>r. fst (snd (snd r))) ?tea),
                length (map (\<lambda>r. snd (snd (snd r))) ?tea),
                length (map (\<lambda>r. fst (snd (snd r))) ?stu),
                length (map (\<lambda>r. snd (snd (snd r))) ?stu), length ?sc} = ?m"
    by simp
  have ltea: "i < length ?tea" and lstu: "i < length ?stu" if "i < ?m" for i
    using that by simp_all
  have re: "map_err (\<lambda>i. reuse_teacher_head self
                (map (\<lambda>r. fst (snd (snd r))) ?tea ! i) (map (\<lambda>r. snd (snd (snd r))) ?tea ! i)
                (map (\<lambda>r. fst (snd (snd r))) ?stu ! i) (map (\<lambda>r. snd (snd (snd r))) ?stu ! i)
                (?sc ! i)) [0..<?m] = reused_outputs self batch_inputs"
    unfolding reused_outputs_def Let_def
  proof (rule map_err_cong)
    fix i assume "i \<in> set [0..<?m]"
    then have "i < ?m" by simp
    from ltea[OF this] lstu[OF this]
    show "reuse_teacher_head self
                (map (\<lambda>r. fst (snd (snd r))) ?tea ! i) (map (\<lambda>r. snd (snd (snd r))) ?tea ! i)
                (map (\<lambda>r. fst (snd (snd r))) ?stu ! i) (map (\<lambda>r. snd (snd (snd r))) ?stu ! i)
                (?sc ! i) =
          reuse_teacher_head self
                (fst (snd (snd (?tea ! i)))) (snd (snd (snd (?tea ! i))))
                (fst (snd (snd (?stu ! i)))) (snd (snd (snd (?stu ! i))))
                (?sc ! i)"
      by simp
  qed
  obtain g ig mt where u: "unpack_gt_instances U batch_data_samples = (g, ig, mt)"
    by (cases "unpack_gt_instances U batch_data_samples")
  have l: "loss U self batch_inputs batch_data_samples =
      bind_err (unpack4 ?tea) (\<lambda>(tea_cls_scores, tea_bbox_preds, tea_cls_hold, tea_reg_hold).
      bind_err (unpack4 ?stu) (\<lambda>(stu_cls_scores, stu_bbox_preds, stu_cls_hold, stu_reg_hold).
      bind_err (map_err (\<lambda>i. reuse_teacher_head self (tea_cls_hold ! i) (tea_reg_hold ! i)
                                (stu_cls_hold ! i) (stu_reg_hold ! i) (?sc ! i))
                  [0..<Min {length tea_cls_hold, length tea_reg_hold, length stu_cls_hold,
                            length stu_reg_hold, length ?sc}])
        (\<lambda>reused.
      bind_err (unpack2 reused) (\<lambda>(reused_cls_scores, reused_bbox_preds).
        loss_by_feat U self tea_cls_scores tea_bbox_preds
           (extract_feat (teacher self) batch_inputs)
           stu_cls_scores stu_bbox_preds (extract_feat self batch_inputs)
           reused_cls_scores reused_bbox_preds g mt ig))))"
    unfolding loss_def teacher_outputs_def student_outputs_def Let_def u by simp
  show ?thesis
  proof (cases "?tea = []")
    case True
    then show ?thesis unfolding l Let_def by (simp add: unpack4_def bind_err_def)
  next
    case tea: False
    show ?thesis
    proof (cases "?stu = []")
      case True
      with tea show ?thesis unfolding l Let_def by (simp add: unpack4_def bind_err_def)
    next
      case stu: False
      show ?thesis
      proof -
        have "loss U self batch_inputs batch_data_samples =
          bind_err (reused_outputs self batch_inputs) (\<lambda>reused.
          bind_err (unpack2 reused) (\<lambda>(reused_cls_scores, reused_bbox_preds).
            loss_by_feat U self (map fst ?tea) (map (\<lambda>r. fst (snd r)) ?tea)
              (extract_feat (teacher self) batch_inputs)
              (map fst ?stu) (map (\<lambda>r. fst (snd r)) ?stu)
              (extract_feat self batch_inputs)
              reused_cls_scores reused_bbox_preds g mt ig))"
          using tea stu unfolding l unpack4_def
          by (simp only: bind_err_def if_False sum.case prod.case m re)
        then show ?thesis
          using tea stu by (simp add: Let_def unpack2_def bind_err_def u split: sum.splits)
      qed
    qed
  qed
qed

lemma dom_loss_dict:
  "dom (loss_dict self det naf kd kdf feats tea_feats) =
     {''loss_cls'', ''loss_bbox'', ''loss_dfl'', ''loss_cls_kd'', ''loss_reg_kd''} \<union>
     (if with_feat_distill self then {''loss_feat_kd''} else {})"
  by (auto simp add: loss_dict_def)

lemma loss_by_feat_Inr:
  assumes r: "loss_by_feat U self tea_cls_scores tea_bbox_preds tea_feats cls_scores bbox_preds
           feats reused_cls_scores reused_bbox_preds batch_gt_instances batch_img_metas
           batch_gt_instances_ignore = Inr losses"
    and t: "cls_reg_targets self cls_scores batch_gt_instances batch_img_metas
                batch_gt_instances_ignore =
              (anchor_list, labels_list, label_weights_list, bbox_targets_list,
               bbox_weights_list, avg_factor)"
  shows "\<exists>kd. kd_levels self tea_cls_scores tea_bbox_preds reused_cls_scores reused_bbox_preds
                label_weights_list (reduce_mean U avg_factor) = Inr kd \<and>
              sum_list (map (\<lambda>r. snd (snd r)) kd) \<noteq> 0 \<and>
              losses = loss_dict self
                (det_levels self anchor_list cls_scores bbox_preds labels_list
                    label_weights_list bbox_targets_list (reduce_mean U avg_factor))
                (max 1 (reduce_mean U (sum_list (map (\<lambda>r. snd (snd (snd r)))
                   (det_levels self anchor_list cls_scores bbox_preds labels_list
                    label_weights_list bbox_targets_list (reduce_mean U avg_factor))))))
                kd (sum_list (map (\<lambda>r. snd (snd r)) kd)) feats tea_feats"
  using r unfolding loss_by_feat_unfold[OF t]
  by (auto simp add: Let_def bind_err_def split: if_splits sum.splits)

lemma ex_forward:
  "forward_crosskd_single (ex_detector\<lparr>with_feat_distill := fd\<rparr>)
       (Tensor [3, 1, 1, 1] [1, 2, 3]) (\<lambda>t. t) ex_teacher =
     (Tensor [3, 1, 1, 1] [0, 0, 0],
      Tensor [3, 4, 1, 1] [0, 0, 0, 0, 0, 0, 0, 0, 0, 0, 0, 0], ex_feat, ex_feat)"
  "forward_crosskd_single (ex_detector\<lparr>with_feat_distill := fd\<rparr>)
       (Tensor [3, 1, 1, 1] [1, 2, 3]) (\<lambda>t. t) (ex_detector\<lparr>with_feat_distill := fd\<rparr>) =
     (Tensor [3, 1, 1, 1] [0, 0, 0],
      Tensor [3, 4, 1, 1] [0, 0, 0, 0, 0, 0, 0, 0, 0, 0, 0, 0], ex_feat, ex_feat)"
  unfolding forward_crosskd_single_def ex_fields
  by (simp_all add: ex_head_def ex_conv_def ex_conv2_def relu_def ex_feat_def expand4_def
      replicate_4 Let_def)

lemma ex_outputs:
  "teacher_outputs (ex_detector\<lparr>with_feat_distill := fd\<rparr>) ex_feat =
     [(Tensor [3, 1, 1, 1] [0, 0, 0],
       Tensor [3, 4, 1, 1] [0, 0, 0, 0, 0, 0, 0, 0, 0, 0, 0, 0], ex_feat, ex_feat)]"
  "student_outputs (ex_detector\<lparr>with_feat_distill := fd\<rparr>) ex_feat =
     [(Tensor [3, 1, 1, 1] [0, 0, 0],
       Tensor [3, 4, 1, 1] [0, 0, 0, 0, 0, 0, 0, 0, 0, 0, 0, 0], ex_feat, ex_feat)]"
  unfolding teacher_outputs_def student_outputs_def ex_fields ex_head_fields
  by (simp_all add: ex_forward[unfolded One_nat_def])

lemma ex_reuse:
  "reuse_teacher_head (ex_detector\<lparr>with_feat_distill := fd\<rparr>)
     ex_feat ex_feat ex_feat ex_feat (\<lambda>t. t) =
   Inr (Tensor [3, 1, 1, 1] [0, 0, 0],
        Tensor [3, 4, 1, 1] [0, 0, 0, 0, 0, 0, 0, 0, 0, 0, 0, 0])"
  unfolding reuse_teacher_head_def ex_fields ex_align
  by (simp add: bind_err_def Let_def ex_head_def py_range_def getitem_def call_conv_def
      ex_conv_def ex_conv2_def relu_def expand4_def replicate_4)

lemma ex_reused_outputs:
  "reused_outputs (ex_detector\<lparr>with_feat_distill := fd\<rparr>) ex_feat =
     Inr [(Tensor [3, 1, 1, 1] [0, 0, 0],
           Tensor [3, 4, 1, 1] [0, 0, 0, 0, 0, 0, 0, 0, 0, 0, 0, 0])]"
  unfolding reused_outputs_def ex_outputs ex_fields ex_head_fields
  by (simp add: Let_def upt_lits ex_reuse bind_err_def)

lemma ex_loss:
  "loss ex_utils (ex_detector\<lparr>with_feat_distill := fd\<rparr>) ex_feat samples =
     Inr (loss_dict (ex_detector\<lparr>with_feat_distill := fd\<rparr>) [(1, 2, 3, 4)] 4 [(5, 1, 1)] 1
            [Tensor [3, 1, 1, 1] [1, 2, 3]] [Tensor [3, 1, 1, 1] [1, 2, 3]])"
  unfolding loss_unfold ex_outputs ex_reused_outputs ex_fields
  by (simp add: Let_def bind_err_def ex_loss_by_feat[unfolded One_nat_def])

lemma ex_detector_upd: "ex_detector\<lparr>with_feat_distill := False\<rparr> = ex_detector"
  by (simp add: ex_detector_def)

lemma loss_Inr:
  assumes "loss U self batch_inputs batch_data_samples = Inr losses"
  shows "\<exists>reused. reused_outputs self batch_inputs = Inr reused \<and>
     loss_by_feat U self (map fst (teacher_outputs self batch_inputs))
       (map (\<lambda>r. fst (snd r)) (teacher_outputs self batch_inputs))
       (extract_feat (teacher self) batch_inputs)
       (map fst (student_outputs self batch_inputs))
       (map (\<lambda>r. fst (snd r)) (student_outputs self batch_inputs))
       (extract_feat self batch_inputs)
       (map fst reused) (map snd reused)
       (fst (unpack_gt_instances U batch_data_samples))
       (snd (snd (unpack_gt_instances U batch_data_samples)))
       (fst (snd (unpack_gt_instances U batch_data_samples))) = Inr losses"
  using assms unfolding loss_unfold
  by (auto simp add: Let_def bind_err_def split: if_splits sum.splits)


section \<open>The components of the loss dictionary\<close>

text \<open>
  Claim C1, amended. A dictionary that \<open>loss_by_feat\<close> returns, and so one that \<open>loss\<close>
  returns, has the components \<open>loss_cls\<close>, \<open>loss_bbox\<close>, \<open>loss_dfl\<close>, \<open>loss_cls_kd\<close> and
  \<open>loss_reg_kd\<close>; these are all its components when \<open>with_feat_distill\<close> is off, and with
  \<open>with_feat_distill\<close> on it has \<open>loss_feat_kd\<close> as a sixth.
\<close>

theorem loss_by_feat_components:
  "(loss_by_feat U self tea_cls_scores tea_bbox_preds tea_feats cls_scores bbox_preds feats
      reused_cls_scores reused_bbox_preds batch_gt_instances batch_img_metas
      batch_gt_instances_ignore = Inr losses \<longrightarrow>
    dom losses =
      {''loss_cls'', ''loss_bbox'', ''loss_dfl'', ''loss_cls_kd'', ''loss_reg_kd''} \<union>
      (if with_feat_distill self then {''loss_feat_kd''} else {})) \<and>
   (loss U self batch_inputs batch_data_samples = Inr losses' \<longrightarrow>
    dom losses' =
      {''loss_cls'', ''loss_bbox'', ''loss_dfl'', ''loss_cls_kd'', ''loss_reg_kd''} \<union>
      (if with_feat_distill self then {''loss_feat_kd''} else {}))"
proof -
  have by_feat: "dom l =
      {''loss_cls'', ''loss_bbox'', ''loss_dfl'', ''loss_cls_kd'', ''loss_reg_kd''} \<union>
      (if with_feat_distill self then {''loss_feat_kd''} else {})"
    if r: "loss_by_feat U self a b c d e f g h gts metas ign = Inr l"
    for a b c d e f g h gts metas ign l
  proof -
    obtain al ll lwl btl bwl avg where
      t: "cls_reg_targets self d gts metas ign = (al, ll, lwl, btl, bwl, avg)"
      by (cases "cls_reg_targets self d gts metas ign")
    from loss_by_feat_Inr[OF r t] obtain kd where
      "l = loss_dict self (det_levels self al d e ll lwl btl (reduce_mean U avg))
             (max 1 (reduce_mean U (sum_list (map (\<lambda>r. snd (snd (snd r)))
                (det_levels self al d e ll lwl btl (reduce_mean U avg))))))
             kd (sum_list (map (\<lambda>r. snd (snd r)) kd)) f c"
      by (elim exE conjE)
    then show ?thesis by (simp only: dom_loss_dict)
  qed
  show ?thesis
  proof (intro conjI impI)
    assume "loss_by_feat U self tea_cls_scores tea_bbox_preds tea_feats cls_scores bbox_preds
      feats reused_cls_scores reused_bbox_preds batch_gt_instances batch_img_metas
      batch_gt_instances_ignore = Inr losses"
    then show "dom losses =
      {''loss_cls'', ''loss_bbox'', ''loss_dfl'', ''loss_cls_kd'', ''loss_reg_kd''} \<union>
      (if with_feat_distill self then {''loss_feat_kd''} else {})"
      by (rule by_feat)
  next
    assume "loss U self batch_inputs batch_data_samples = Inr losses'"
    from loss_Inr[OF this] obtain reused where
      "loss_by_feat U self (map fst (teacher_outputs self batch_inputs))
       (map (\<lambda>r. fst (snd r)) (teacher_outputs self batch_inputs))
       (extract_feat (teacher self) batch_inputs)
       (map fst (student_outputs self batch_inputs))
       (map (\<lambda>r. fst (snd r)) (student_outputs self batch_inputs))
       (extract_feat self batch_inputs)
       (map fst reused) (map snd reused)
       (fst (unpack_gt_instances U batch_data_samples))
       (snd (snd (unpack_gt_instances U batch_data_samples)))
       (fst (snd (unpack_gt_instances U batch_data_samples))) = Inr losses'"
      by (elim exE conjE)
    then show "dom losses' =
      {''loss_cls'', ''loss_bbox'', ''loss_dfl'', ''loss_cls_kd'', ''loss_reg_kd''} \<union>
      (if with_feat_distill self then {''loss_feat_kd''} else {})"
      by (rule by_feat)
  qed
qed

lemma ex_dict_off:
  "loss_dict ex_detector [(1, 2, 3, 4)] 4 [(5, 1, 1)] 1 [feat] [tea_feat] =
     [''loss_cls'' \<mapsto> [1], ''loss_bbox'' \<mapsto> [1 / 2], ''loss_dfl'' \<mapsto> [3 / 4],
      ''loss_cls_kd'' \<mapsto> [5], ''loss_reg_kd'' \<mapsto> [1]]"
  using ex_loss_dict[of False feat tea_feat] by (simp add: ex_detector_upd)

lemma ex_dict_on:
  "loss_dict (ex_detector\<lparr>with_feat_distill := True\<rparr>) [(1, 2, 3, 4)] 4 [(5, 1, 1)] 1
     [feat] [tea_feat] =
     [''loss_cls'' \<mapsto> [1], ''loss_bbox'' \<mapsto> [1 / 2], ''loss_dfl'' \<mapsto> [3 / 4],
      ''loss_cls_kd'' \<mapsto> [5], ''loss_reg_kd'' \<mapsto> [1], ''loss_feat_kd'' \<mapsto> [7]]"
  using ex_loss_dict[of True feat tea_feat] by simp

lemma ex_loss_by_feat_zero:
  "loss_by_feat ex_utils (ex_detector\<lparr>with_feat_distill := fd\<rparr>)
     [Tensor [3, 1, 1, 1] [0, 0, 0]]
     [Tensor [3, 4, 1, 1] [0, 0, 0, 0, 0, 0, 0, 0, 0, 0, 0, 0]]
     [ex_feat]
     [Tensor [3, 1, 1, 1] [0, 0, 0]]
     [Tensor [3, 4, 1, 1] [0, 0, 0, 0, 0, 0, 0, 0, 0, 0, 0, 0]]
     [ex_feat]
     [Tensor [3, 1, 1, 1] [0, 0, 0]]
     [Tensor [3, 4, 1, 1] [0, 0, 0, 0, 0, 0, 0, 0, 0, 0, 0, 0]]
     [] [] [] =
   Inr (loss_dict (ex_detector\<lparr>with_feat_distill := fd\<rparr>) [(1, 2, 3, 4)] 4 [(5, 1, 1)] 1
          [ex_feat] [ex_feat])"
  by (rule ex_loss_by_feat)

theorem loss_by_feat_components_witness:
  "loss_by_feat ex_utils ex_detector
     [Tensor [3, 1, 1, 1] [0, 0, 0]]
     [Tensor [3, 4, 1, 1] [0, 0, 0, 0, 0, 0, 0, 0, 0, 0, 0, 0]]
     [ex_feat]
     [Tensor [3, 1, 1, 1] [0, 0, 0]]
     [Tensor [3, 4, 1, 1] [0, 0, 0, 0, 0, 0, 0, 0, 0, 0, 0, 0]]
     [ex_feat]
     [Tensor [3, 1, 1, 1] [0, 0, 0]]
     [Tensor [3, 4, 1, 1] [0, 0, 0, 0, 0, 0, 0, 0, 0, 0, 0, 0]]
     [] [] [] =
     Inr [''loss_cls'' \<mapsto> [1], ''loss_bbox'' \<mapsto> [1 / 2], ''loss_dfl'' \<mapsto> [3 / 4],
          ''loss_cls_kd'' \<mapsto> [5], ''loss_reg_kd'' \<mapsto> [1]] \<and>
   loss ex_utils ex_detector ex_feat [] =
     Inr [''loss_cls'' \<mapsto> [1], ''loss_bbox'' \<mapsto> [1 / 2], ''loss_dfl'' \<mapsto> [3 / 4],
          ''loss_cls_kd'' \<mapsto> [5], ''loss_reg_kd'' \<mapsto> [1]] \<and>
   dom [''loss_cls'' \<mapsto> [1::real], ''loss_bbox'' \<mapsto> [1 / 2], ''loss_dfl'' \<mapsto> [3 / 4],
        ''loss_cls_kd'' \<mapsto> [5], ''loss_reg_kd'' \<mapsto> [1]] =
     {''loss_cls'', ''loss_bbox'', ''loss_dfl'', ''loss_cls_kd'', ''loss_reg_kd''} \<union>
     (if with_feat_distill ex_detector then {''loss_feat_kd''} else {})"
proof -
  let ?L = "[''loss_cls'' \<mapsto> [1::real], ''loss_bbox'' \<mapsto> [1 / 2], ''loss_dfl'' \<mapsto> [3 / 4],
             ''loss_cls_kd'' \<mapsto> [5], ''loss_reg_kd'' \<mapsto> [1]]"
  have a: "loss_by_feat ex_utils ex_detector
     [Tensor [3, 1, 1, 1] [0, 0, 0]]
     [Tensor [3, 4, 1, 1] [0, 0, 0, 0, 0, 0, 0, 0, 0, 0, 0, 0]]
     [ex_feat]
     [Tensor [3, 1, 1, 1] [0, 0, 0]]
     [Tensor [3, 4, 1, 1] [0, 0, 0, 0, 0, 0, 0, 0, 0, 0, 0, 0]]
     [ex_feat]
     [Tensor [3, 1, 1, 1] [0, 0, 0]]
     [Tensor [3, 4, 1, 1] [0, 0, 0, 0, 0, 0, 0, 0, 0, 0, 0, 0]]
     [] [] [] = Inr ?L"
    using ex_loss_by_feat_zero[of False] unfolding ex_detector_upd ex_dict_off .
  have b: "loss ex_utils ex_detector ex_feat [] = Inr ?L"
    using ex_loss[of False "[]"] unfolding ex_detector_upd ex_dict_off .
  from loss_by_feat_components[THEN conjunct1, rule_format, OF a]
  have c: "dom ?L =
     {''loss_cls'', ''loss_bbox'', ''loss_dfl'', ''loss_cls_kd'', ''loss_reg_kd''} \<union>
     (if with_feat_distill ex_detector then {''loss_feat_kd''} else {})" .
  from a b c show ?thesis by (intro conjI)
qed

text \<open>
  With \<open>with_feat_distill\<close> on, the small detector returns six components, so the five
  named ones are not all of them.
\<close>

theorem loss_by_feat_six_counterexample:
  "loss_by_feat ex_utils (ex_detector\<lparr>with_feat_distill := True\<rparr>)
     [Tensor [3, 1, 1, 1] [0, 0, 0]]
     [Tensor [3, 4, 1, 1] [0, 0, 0, 0, 0, 0, 0, 0, 0, 0, 0, 0]]
     [ex_feat]
     [Tensor [3, 1, 1, 1] [0, 0, 0]]
     [Tensor [3, 4, 1, 1] [0, 0, 0, 0, 0, 0, 0, 0, 0, 0, 0, 0]]
     [ex_feat]
     [Tensor [3, 1, 1, 1] [0, 0, 0]]
     [Tensor [3, 4, 1, 1] [0, 0, 0, 0, 0, 0, 0, 0, 0, 0, 0, 0]]
     [] [] [] =
     Inr [''loss_cls'' \<mapsto> [1], ''loss_bbox'' \<mapsto> [1 / 2], ''loss_dfl'' \<mapsto> [3 / 4],
          ''loss_cls_kd'' \<mapsto> [5], ''loss_reg_kd'' \<mapsto> [1], ''loss_feat_kd'' \<mapsto> [7]] \<and>
   dom [''loss_cls'' \<mapsto> [1::real], ''loss_bbox'' \<mapsto> [1 / 2], ''loss_dfl'' \<mapsto> [3 / 4],
        ''loss_cls_kd'' \<mapsto> [5], ''loss_reg_kd'' \<mapsto> [1], ''loss_feat_kd'' \<mapsto> [7]] \<noteq>
     {''loss_cls'', ''loss_bbox'', ''loss_dfl'', ''loss_cls_kd'', ''loss_reg_kd''}"
proof -
  have a: "loss_by_feat ex_utils (ex_detector\<lparr>with_feat_distill := True\<rparr>)
     [Tensor [3, 1, 1, 1] [0, 0, 0]]
     [Tensor [3, 4, 1, 1] [0, 0, 0, 0, 0, 0, 0, 0, 0, 0, 0, 0]]
     [ex_feat]
     [Tensor [3, 1, 1, 1] [0, 0, 0]]
     [Tensor [3, 4, 1, 1] [0, 0, 0, 0, 0, 0, 0, 0, 0, 0, 0, 0]]
     [ex_feat]
     [Tensor [3, 1, 1, 1] [0, 0, 0]]
     [Tensor [3, 4, 1, 1] [0, 0, 0, 0, 0, 0, 0, 0, 0, 0, 0, 0]]
     [] [] [] =
     Inr [''loss_cls'' \<mapsto> [1], ''loss_bbox'' \<mapsto> [1 / 2], ''loss_dfl'' \<mapsto> [3 / 4],
          ''loss_cls_kd'' \<mapsto> [5], ''loss_reg_kd'' \<mapsto> [1], ''loss_feat_kd'' \<mapsto> [7]]"
    using ex_loss_by_feat_zero[of True] unfolding ex_dict_on .
  have "''loss_feat_kd'' \<in>
     dom [''loss_cls'' \<mapsto> [1::real], ''loss_bbox'' \<mapsto> [1 / 2], ''loss_dfl'' \<mapsto> [3 / 4],
        ''loss_cls_kd'' \<mapsto> [5], ''loss_reg_kd'' \<mapsto> [1], ''loss_feat_kd'' \<mapsto> [7]]"
    by simp
  moreover have "''loss_feat_kd'' \<notin>
     {''loss_cls'', ''loss_bbox'', ''loss_dfl'', ''loss_cls_kd'', ''loss_reg_kd''}"
    by simp
  ultimately have b: "dom [''loss_cls'' \<mapsto> [1::real], ''loss_bbox'' \<mapsto> [1 / 2],
        ''loss_dfl'' \<mapsto> [3 / 4], ''loss_cls_kd'' \<mapsto> [5], ''loss_reg_kd'' \<mapsto> [1],
        ''loss_feat_kd'' \<mapsto> [7]] \<noteq>
     {''loss_cls'', ''loss_bbox'', ''loss_dfl'', ''loss_cls_kd'', ''loss_reg_kd''}"
    by metis
  from a b show ?thesis by (intro conjI)
qed

section \<open>The denominator of the regression distillation loss\<close>

lemma exp_100_overflow: "(2::real) ^ 128 \<le> exp 100"
proof -
  have "(5 / 2 :: real) \<le> exp 1"
    using exp_lower_Taylor_quadratic[of "1::real"] by simp
  then have "(5 / 2 :: real) ^ 100 \<le> exp 1 ^ 100"
    by (intro power_mono) simp_all
  also have "exp (1::real) ^ 100 = exp 100"
    using exp_of_nat_mult[of 100 "1::real"] by simp
  finally have "(5 / 2 :: real) ^ 100 \<le> exp 100" .
  moreover have "(2::real) ^ 128 \<le> (5 / 2) ^ 100" by (simp add: power_divide)
  ultimately show ?thesis by (rule order_trans[rotated])
qed

lemma sigmoid_overflow: "sigmoid (- 100) = 0"
  using exp_100_overflow by (simp add: sigmoid_def)

lemma ex_weights_overflow:
  "kd_reg_weights [[- 100], [- 100], [- 100]] [1, 0, 1] = Inr [0, 0, 0]"
  by (simp add: kd_reg_weights_def sigmoid_overflow)

lemma ex_kd_levels_overflow:
  "kd_levels (ex_detector\<lparr>with_feat_distill := fd\<rparr>)
     [Tensor [3, 1, 1, 1] [- 100, - 100, - 100]]
     [Tensor [3, 4, 1, 1] [0, 0, 0, 0, 0, 0, 0, 0, 0, 0, 0, 0]]
     [Tensor [3, 1, 1, 1] [0, 0, 0]]
     [Tensor [3, 4, 1, 1] [0, 0, 0, 0, 0, 0, 0, 0, 0, 0, 0, 0]]
     [Tensor [3] [1, 0, 1]] avg = Inr [(5, 0, 0)]"
proof -
  have "pred_mimicking_loss_single (ex_detector\<lparr>with_feat_distill := fd\<rparr>)
     (Tensor [3, 1, 1, 1] [- 100, - 100, - 100])
     (Tensor [3, 4, 1, 1] [0, 0, 0, 0, 0, 0, 0, 0, 0, 0, 0, 0])
     (Tensor [3, 1, 1, 1] [0, 0, 0])
     (Tensor [3, 4, 1, 1] [0, 0, 0, 0, 0, 0, 0, 0, 0, 0, 0, 0])
     (Tensor [3] [1, 0, 1]) avg = Inr (5, 0, 0)"
    unfolding pred_mimicking_loss_single_def ex_fields ex_head_fields
    by (simp add: bind_err_def Let_def ex_cls_rows[unfolded One_nat_def]
        ex_reg_rows[unfolded One_nat_def] ex_weights_overflow expand4_def replicate_4)
  then show ?thesis
    by (simp add: kd_levels_def upt_lits bind_err_def)
qed

text \<open>
  Claim C9. The claim has every denominator of the loss dictionary nonzero once a location
  has a nonzero label weight. For \<open>new_avg_factor\<close> the code sees to it with
  \<open>clamp_(min=1)\<close>; for \<open>kd_avg_factor\<close> it does not. On the small detector the label
  weights of the three locations are \<open>(1, 0, 1)\<close>; with a teacher whose class score is
  -100 at every location the sigmoids are 0, the totals of the weights that
  \<open>pred_mimicking_loss_single\<close> returns are 0, \<open>kd_avg_factor\<close> is 0 and \<open>loss_by_feat\<close>
  divides \<open>loss_reg_kd\<close> by zero.
\<close>

theorem kd_avg_factor_zero:
  "cls_reg_targets ex_detector [Tensor [3, 1, 1, 1] [0, 0, 0]] [] [] [] =
     ([()], [()], [Tensor [3] [1, 0, 1]], [()], [()], 2) \<and>
   kd_levels ex_detector
     [Tensor [3, 1, 1, 1] [- 100, - 100, - 100]]
     [Tensor [3, 4, 1, 1] [0, 0, 0, 0, 0, 0, 0, 0, 0, 0, 0, 0]]
     [Tensor [3, 1, 1, 1] [0, 0, 0]]
     [Tensor [3, 4, 1, 1] [0, 0, 0, 0, 0, 0, 0, 0, 0, 0, 0, 0]]
     [Tensor [3] [1, 0, 1]] (reduce_mean ex_utils 2) = Inr [(5, 0, 0)] \<and>
   loss_by_feat ex_utils ex_detector
     [Tensor [3, 1, 1, 1] [- 100, - 100, - 100]]
     [Tensor [3, 4, 1, 1] [0, 0, 0, 0, 0, 0, 0, 0, 0, 0, 0, 0]]
     [ex_feat]
     [Tensor [3, 1, 1, 1] [0, 0, 0]]
     [Tensor [3, 4, 1, 1] [0, 0, 0, 0, 0, 0, 0, 0, 0, 0, 0, 0]]
     [ex_feat]
     [Tensor [3, 1, 1, 1] [0, 0, 0]]
     [Tensor [3, 4, 1, 1] [0, 0, 0, 0, 0, 0, 0, 0, 0, 0, 0, 0]]
     [] [] [] = Inl NonFinite"
proof -
  have t: "cls_reg_targets ex_detector [Tensor [3, 1, 1, 1] [0, 0, 0]] [] [] [] =
     ([()], [()], [Tensor [3] [1, 0, 1]], [()], [()], 2)"
    using ex_targets[of False] unfolding ex_detector_upd .
  have kd: "kd_levels ex_detector
     [Tensor [3, 1, 1, 1] [- 100, - 100, - 100]]
     [Tensor [3, 4, 1, 1] [0, 0, 0, 0, 0, 0, 0, 0, 0, 0, 0, 0]]
     [Tensor [3, 1, 1, 1] [0, 0, 0]]
     [Tensor [3, 4, 1, 1] [0, 0, 0, 0, 0, 0, 0, 0, 0, 0, 0, 0]]
     [Tensor [3] [1, 0, 1]] (reduce_mean ex_utils 2) = Inr [(5, 0, 0)]"
    using ex_kd_levels_overflow[of False] unfolding ex_detector_upd .
  have d: "det_levels ex_detector [()] [Tensor [3, 1, 1, 1] [0, 0, 0]]
       [Tensor [3, 4, 1, 1] [0, 0, 0, 0, 0, 0, 0, 0, 0, 0, 0, 0]] [()]
       [Tensor [3] [1, 0, 1]] [()] (reduce_mean ex_utils 2) = [(1, 2, 3, 4)]"
    using ex_det_levels[of False] unfolding ex_detector_upd .
  have l: "loss_by_feat ex_utils ex_detector
     [Tensor [3, 1, 1, 1] [- 100, - 100, - 100]]
     [Tensor [3, 4, 1, 1] [0, 0, 0, 0, 0, 0, 0, 0, 0, 0, 0, 0]]
     [ex_feat]
     [Tensor [3, 1, 1, 1] [0, 0, 0]]
     [Tensor [3, 4, 1, 1] [0, 0, 0, 0, 0, 0, 0, 0, 0, 0, 0, 0]]
     [ex_feat]
     [Tensor [3, 1, 1, 1] [0, 0, 0]]
     [Tensor [3, 4, 1, 1] [0, 0, 0, 0, 0, 0, 0, 0, 0, 0, 0, 0]]
     [] [] [] = Inl NonFinite"
    unfolding loss_by_feat_unfold[OF t] kd d
    using ex_fields(1)[of False] ex_head_fields(3)
    by (simp add: bind_err_def ex_detector_upd)
  from t kd l show ?thesis by (intro conjI)
qed

section \<open>The normalisation of the loss terms\<close>





section \<open>The terms of the training loss\<close>




end
